theory Spec2Isabelle
  imports Complex_Main "HOL-Library.AList"
begin

section \<open>JavaScript values\<close>

text \<open>
  The storefront is untyped JavaScript: the cart, the remote payloads and the variants are
  plain objects that come out of \<open>JSON.parse\<close> or of a GraphQL response. They are modelled
  as values of one datatype. A number is a rational or \<open>NaN\<close> (the code only compares numbers
  and adds or subtracts one; on finite doubles \<open>t < 0.01\<close> holds exactly when the value of
  \<open>t\<close> is below \<open>1/100\<close>, since the double nearest to \<open>0.01\<close> lies above it and its
  predecessor below). An object is an association list from property names to values, in
  insertion order.
\<close>

datatype jsval =
    JUndefined
  | JNull
  | JBool bool
  | JNum rat
  | JNaN
  | JStr string
  | JArr "jsval list"
  | JObj "(string \<times> jsval) list"

text \<open>What a \<open>throw\<close> carries: the engine's \<open>TypeError\<close> and \<open>SyntaxError\<close>, and
  \<open>new Error(message)\<close> as the source and the remote client raise it.\<close>

datatype error = TypeError | SyntaxError | Error string

text \<open>\<open>if (v)\<close>, \<open>!v\<close>, \<open>v || d\<close>, \<open>c ? a : b\<close>: the falsy values are \<open>undefined\<close>,
  \<open>null\<close>, \<open>false\<close>, \<open>0\<close>, \<open>NaN\<close> and the empty string.\<close>

fun truthy :: "jsval \<Rightarrow> bool" where
  "truthy JUndefined = False"
| "truthy JNull = False"
| "truthy (JBool b) = b"
| "truthy (JNum q) = (q \<noteq> 0)"
| "truthy JNaN = False"
| "truthy (JStr s) = (s \<noteq> [])"
| "truthy (JArr xs) = True"
| "truthy (JObj ps) = True"

text \<open>\<open>v.k\<close> on a value that is neither \<open>undefined\<close> nor \<open>null\<close>: an own property of an
  object, \<open>length\<close> of an array or a string, \<open>undefined\<close> otherwise (none of the names the
  code reads is a method of a prototype).\<close>

fun js_prop :: "jsval \<Rightarrow> string \<Rightarrow> jsval" where
  "js_prop (JObj ps) k = (case map_of ps k of None \<Rightarrow> JUndefined | Some v \<Rightarrow> v)"
| "js_prop (JArr xs) k = (if k = ''length'' then JNum (of_nat (length xs)) else JUndefined)"
| "js_prop (JStr s) k = (if k = ''length'' then JNum (of_nat (length s)) else JUndefined)"
| "js_prop v k = JUndefined"

definition nullish :: "jsval \<Rightarrow> bool" where
  "nullish v = (v = JUndefined \<or> v = JNull)"

text \<open>\<open>v.k\<close> in general: reading a property of \<open>undefined\<close> or \<open>null\<close> throws.\<close>

definition get :: "jsval \<Rightarrow> string \<Rightarrow> error + jsval" where
  "get v k = (if nullish v then Inl TypeError else Inr (js_prop v k))"

text \<open>\<open>v?.k\<close>: optional chaining yields \<open>undefined\<close> where \<open>v.k\<close> would throw.\<close>

definition opt_get :: "jsval \<Rightarrow> string \<Rightarrow> jsval" where
  "opt_get v k = (if nullish v then JUndefined else js_prop v k)"

text \<open>\<open>a === p\<close> with a primitive on one side, as every use in the code has: equal type and
  value, \<open>NaN\<close> equal to nothing, an object or array (compared by reference) never equal to
  a primitive.\<close>

fun primitive :: "jsval \<Rightarrow> bool" where
  "primitive (JArr xs) = False"
| "primitive (JObj ps) = False"
| "primitive v = True"

definition strict_eq :: "jsval \<Rightarrow> jsval \<Rightarrow> bool" where
  "strict_eq a b = (a = b \<and> primitive a \<and> a \<noteq> JNaN)"

section \<open>Variant availability\<close>

text \<open>
  \<open>ShopifyStorefront.isVariantAvailable\<close> (shopify-api.js), the method the application
  calls through \<open>this.shopify\<close>:
  \<^verbatim>\<open>
    if (!variant) return false;
    if (variant.availableForSale === false) { return false; }
    return true;
  \<close>
\<close>

definition ShopifyStorefront_isVariantAvailable :: "jsval \<Rightarrow> bool" where
  "ShopifyStorefront_isVariantAvailable variant =
     (if \<not> truthy variant then False
      else if strict_eq (js_prop variant ''availableForSale'') (JBool False) then False
      else True)"

text \<open>
  \<open>ShopifyStorefrontDemo.isVariantAvailable\<close>, the demo script's "new isVariantAvailable
  method" that the script says simulates the class:
  \<^verbatim>\<open>
    if (!variant) return false;
    const inventoryManagement = variant.inventoryManagement; ...
    if (!inventoryManagement || inventoryManagement === null || inventoryManagement === '')
        return true;
    if (inventoryPolicy === 'CONTINUE') return true;
    if (availableForSale === true) return true;
    if (inventoryPolicy === 'DENY' && availableForSale === false) return false;
    return true;
  \<close>
\<close>

definition ShopifyStorefrontDemo_isVariantAvailable :: "jsval \<Rightarrow> bool" where
  "ShopifyStorefrontDemo_isVariantAvailable variant =
     (if \<not> truthy variant then False
      else
        let inventoryManagement = js_prop variant ''inventoryManagement'';
            inventoryPolicy = js_prop variant ''inventoryPolicy'';
            availableForSale = js_prop variant ''availableForSale''
        in
          if \<not> truthy inventoryManagement \<or> strict_eq inventoryManagement JNull
             \<or> strict_eq inventoryManagement (JStr '''') then True
          else if strict_eq inventoryPolicy (JStr ''CONTINUE'') then True
          else if strict_eq availableForSale (JBool True) then True
          else if strict_eq inventoryPolicy (JStr ''DENY'')
                  \<and> strict_eq availableForSale (JBool False) then False
          else True)"

text \<open>The demo script's second test case: inventory tracked, overselling allowed, sale flag
  false.\<close>

definition productWithContinuePolicy :: jsval where
  "productWithContinuePolicy = JObj
     [(''id'', JStr ''gid://shopify/ProductVariant/2''),
      (''title'', JStr ''Physical Product - Oversell Allowed''),
      (''availableForSale'', JBool False),
      (''inventoryManagement'', JStr ''SHOPIFY''),
      (''inventoryPolicy'', JStr ''CONTINUE''),
      (''quantityAvailable'', JNum 0),
      (''currentlyNotInStock'', JBool True)]"

section \<open>The runtime\<close>

text \<open>
  Built-in functions of the JavaScript engine that the code calls and the repository does
  not define. They are parameters of the model: \<open>parseFloat\<close>; \<open>JSON.parse\<close>, which
  throws a \<open>SyntaxError\<close> on a text that is not JSON (\<open>None\<close>); \<open>JSON.stringify\<close>;
  the conversion of a value that is not a string to a string (template literals,
  \<open>Array.prototype.join\<close>); and the conversion of a string to a number.
\<close>

record runtime =
  parseFloat :: "jsval \<Rightarrow> jsval"
  JSON_parse :: "string \<Rightarrow> jsval option"
  JSON_stringify :: "jsval \<Rightarrow> string"
  ToString :: "jsval \<Rightarrow> string"
  StringToNumber :: "string \<Rightarrow> jsval"

definition to_string :: "runtime \<Rightarrow> jsval \<Rightarrow> string" where
  "to_string rt v = (case v of JStr s \<Rightarrow> s | _ \<Rightarrow> ToString rt v)"

text \<open>\<open>ToNumber\<close>, as the operators \<open><\<close> and \<open>-\<close> apply it to an operand.\<close>

fun to_number :: "runtime \<Rightarrow> jsval \<Rightarrow> jsval" where
  "to_number rt JUndefined = JNaN"
| "to_number rt JNull = JNum 0"
| "to_number rt (JBool b) = JNum (if b then 1 else 0)"
| "to_number rt (JNum q) = JNum q"
| "to_number rt JNaN = JNaN"
| "to_number rt (JStr s) = StringToNumber rt s"
| "to_number rt (JArr xs) = StringToNumber rt (ToString rt (JArr xs))"
| "to_number rt (JObj ps) = StringToNumber rt (ToString rt (JObj ps))"

text \<open>\<open>a < q\<close> for a number literal \<open>q\<close>: false when \<open>a\<close> converts to \<open>NaN\<close>.\<close>

definition js_less :: "runtime \<Rightarrow> jsval \<Rightarrow> rat \<Rightarrow> bool" where
  "js_less rt a q = (case to_number rt a of JNum x \<Rightarrow> x < q | _ \<Rightarrow> False)"

text \<open>\<open>a + 1\<close>: concatenation when \<open>a\<close> is a string or converts to one (arrays, objects),
  addition of numbers otherwise.\<close>

definition js_plus_one :: "runtime \<Rightarrow> jsval \<Rightarrow> jsval" where
  "js_plus_one rt a =
     (case a of
        JStr s \<Rightarrow> JStr (s @ ''1'')
      | JArr xs \<Rightarrow> JStr (ToString rt a @ ''1'')
      | JObj ps \<Rightarrow> JStr (ToString rt a @ ''1'')
      | _ \<Rightarrow> (case to_number rt a of JNum x \<Rightarrow> JNum (x + 1) | _ \<Rightarrow> JNaN))"

text \<open>\<open>Math.max(0, a - 1)\<close>: \<open>NaN\<close> when \<open>a\<close> does not convert to a number.\<close>

definition js_max0_minus_one :: "runtime \<Rightarrow> jsval \<Rightarrow> jsval" where
  "js_max0_minus_one rt a =
     (case to_number rt a of JNum x \<Rightarrow> JNum (max 0 (x - 1)) | _ \<Rightarrow> JNaN)"

section \<open>Exceptions and array methods\<close>

definition and_then :: "error + 'a \<Rightarrow> ('a \<Rightarrow> error + 'b) \<Rightarrow> error + 'b" where
  "and_then m f = (case m of Inl e \<Rightarrow> Inl e | Inr x \<Rightarrow> f x)"

text \<open>The callbacks of \<open>map\<close>, \<open>filter\<close> and \<open>findIndex\<close> run on the elements in order; the
  first one that throws ends the call.\<close>

fun map_throw :: "('a \<Rightarrow> error + 'b) \<Rightarrow> 'a list \<Rightarrow> error + 'b list" where
  "map_throw f [] = Inr []"
| "map_throw f (x # xs) =
     (case f x of
        Inl e \<Rightarrow> Inl e
      | Inr y \<Rightarrow> (case map_throw f xs of Inl e \<Rightarrow> Inl e | Inr ys \<Rightarrow> Inr (y # ys)))"

fun filter_throw :: "('a \<Rightarrow> error + bool) \<Rightarrow> 'a list \<Rightarrow> error + 'a list" where
  "filter_throw f [] = Inr []"
| "filter_throw f (x # xs) =
     (case f x of
        Inl e \<Rightarrow> Inl e
      | Inr b \<Rightarrow> (case filter_throw f xs of
                    Inl e \<Rightarrow> Inl e
                  | Inr ys \<Rightarrow> Inr (if b then x # ys else ys)))"

text \<open>\<open>findIndex\<close> stops at the first element the callback accepts; \<open>None\<close> is \<open>-1\<close>.\<close>

fun findIndex_throw :: "('a \<Rightarrow> error + bool) \<Rightarrow> 'a list \<Rightarrow> error + nat option" where
  "findIndex_throw f [] = Inr None"
| "findIndex_throw f (x # xs) =
     (case f x of
        Inl e \<Rightarrow> Inl e
      | Inr b \<Rightarrow> (if b then Inr (Some 0)
                  else (case findIndex_throw f xs of
                          Inl e \<Rightarrow> Inl e
                        | Inr None \<Rightarrow> Inr None
                        | Inr (Some i) \<Rightarrow> Inr (Some (Suc i)))))"

text \<open>\<open>v.map(f)\<close>, \<open>v.filter(f)\<close>, \<open>v.findIndex(f)\<close>, \<open>v.reduce(f, 0)\<close> on a value: a
  \<open>TypeError\<close> unless \<open>v\<close> is an array (reading the method of \<open>undefined\<close> or \<open>null\<close>
  throws, and on any other value the method is not a function).\<close>

definition js_map :: "(jsval \<Rightarrow> error + 'b) \<Rightarrow> jsval \<Rightarrow> error + 'b list" where
  "js_map f v = (case v of JArr xs \<Rightarrow> map_throw f xs | _ \<Rightarrow> Inl TypeError)"

definition js_filter :: "(jsval \<Rightarrow> error + bool) \<Rightarrow> jsval \<Rightarrow> error + jsval list" where
  "js_filter f v = (case v of JArr xs \<Rightarrow> filter_throw f xs | _ \<Rightarrow> Inl TypeError)"

definition js_findIndex :: "(jsval \<Rightarrow> error + bool) \<Rightarrow> jsval \<Rightarrow> error + nat option" where
  "js_findIndex f v = (case v of JArr xs \<Rightarrow> findIndex_throw f xs | _ \<Rightarrow> Inl TypeError)"

text \<open>\<open>Array.prototype.join\<close> on strings.\<close>

fun join_strings :: "string \<Rightarrow> string list \<Rightarrow> string" where
  "join_strings sep [] = []"
| "join_strings sep [s] = s"
| "join_strings sep (s # t # ss) = s @ sep @ join_strings sep (t # ss)"

text \<open>
  \<open>obj.k = v\<close>. Class bodies are strict code, so the assignment throws a \<open>TypeError\<close> on
  \<open>undefined\<close>, \<open>null\<close> and on every primitive. On an object, a property that exists
  keeps its place and a new one goes last. An array takes the property as an object does
  (\<open>this.cart\<close> is an array after a stored record that is a JSON array was loaded). The
  arrays of this model carry no named properties, and the code reads the value it assigns
  to only through the properties \<open>id\<close>, \<open>items\<close>, \<open>total\<close> and \<open>checkoutUrl\<close>, never
  through its elements: the array that has taken a property is kept as the object of its
  \<open>length\<close> and its named properties, which every such read sees as it sees the array.
  (The code assigns those four names only, never \<open>length\<close>.)
\<close>

definition set_prop :: "jsval \<Rightarrow> string \<Rightarrow> jsval \<Rightarrow> error + jsval" where
  "set_prop obj k v =
     (case obj of
        JObj ps \<Rightarrow> Inr (JObj (AList.update k v ps))
      | JArr xs \<Rightarrow> Inr (JObj (AList.update k v [(''length'', JNum (of_nat (length xs)))]))
      | _ \<Rightarrow> Inl TypeError)"

section \<open>The reconciler: updateCartFromResponse\<close>

text \<open>The properties an object spread \<open>{...m}\<close> copies. A string or an array would spread
  its indices, but then \<open>m.priceV2.amount\<close> throws and the copy is never seen.\<close>

definition own_props :: "jsval \<Rightarrow> (string \<times> jsval) list" where
  "own_props m = (case m of JObj ps \<Rightarrow> ps | _ \<Rightarrow> [])"

text \<open>
  \<^verbatim>\<open>
    variant: { ...merchandise,
        availableForSale: merchandise.availableForSale,
        quantityAvailable: merchandise.quantityAvailable,
        currentlyNotInStock: merchandise.currentlyNotInStock,
        inventoryManagement: merchandise.inventoryManagement,
        inventoryPolicy: merchandise.inventoryPolicy }
  \<close>
\<close>

definition line_variant :: "jsval \<Rightarrow> error + jsval" where
  "line_variant merchandise =
     (if nullish merchandise then Inl TypeError
      else Inr (JObj
        (AList.update ''inventoryPolicy'' (js_prop merchandise ''inventoryPolicy'')
        (AList.update ''inventoryManagement'' (js_prop merchandise ''inventoryManagement'')
        (AList.update ''currentlyNotInStock'' (js_prop merchandise ''currentlyNotInStock'')
        (AList.update ''quantityAvailable'' (js_prop merchandise ''quantityAvailable'')
        (AList.update ''availableForSale'' (js_prop merchandise ''availableForSale'')
          (own_props merchandise))))))))"

text \<open>
  The callback of \<open>cartData.lines.edges.map\<close>:
  \<^verbatim>\<open>
    const merchandise = edge.node.merchandise;
    return { id: edge.node.id, quantity: edge.node.quantity,
             variant: {...}, price: parseFloat(merchandise.priceV2.amount) };
  \<close>
\<close>

definition line_item :: "runtime \<Rightarrow> jsval \<Rightarrow> error + jsval" where
  "line_item rt edge =
     and_then (get edge ''node'') (\<lambda>node.
     and_then (get node ''merchandise'') (\<lambda>merchandise.
     and_then (line_variant merchandise) (\<lambda>variant.
     and_then (get merchandise ''priceV2'') (\<lambda>priceV2.
     and_then (get priceV2 ''amount'') (\<lambda>amount.
       Inr (JObj [(''id'', js_prop node ''id''),
                  (''quantity'', js_prop node ''quantity''),
                  (''variant'', variant),
                  (''price'', parseFloat rt amount)]))))))"

definition line_items :: "runtime \<Rightarrow> jsval \<Rightarrow> error + jsval list" where
  "line_items rt cartData =
     and_then (get cartData ''lines'') (\<lambda>lines.
     and_then (get lines ''edges'') (\<lambda>edges.
       js_map (line_item rt) edges))"

text \<open>
  \<^verbatim>\<open>
    cartData.estimatedCost ? parseFloat(cartData.estimatedCost.totalAmount.amount) : 0
  \<close>
\<close>

definition cart_total :: "runtime \<Rightarrow> jsval \<Rightarrow> error + jsval" where
  "cart_total rt cartData =
     and_then (get cartData ''estimatedCost'') (\<lambda>estimatedCost.
       if truthy estimatedCost then
         and_then (get estimatedCost ''totalAmount'') (\<lambda>totalAmount.
         and_then (get totalAmount ''amount'') (\<lambda>amount.
           Inr (parseFloat rt amount)))
       else Inr (JNum 0))"

text \<open>
  \<open>updateCartFromResponse(cartData)\<close> on the value of \<open>this.cart\<close>: three assignments in
  a row. The result is the cart afterwards and the exception thrown, if any; an exception
  in the second or third statement leaves the earlier assignments done.
  \<^verbatim>\<open>
    this.cart.items = cartData.lines.edges.map(edge => {...});
    this.cart.total = cartData.estimatedCost ? parseFloat(...) : 0;
    this.cart.checkoutUrl = cartData.checkoutUrl;
  \<close>
\<close>

definition updateCartFromResponse :: "runtime \<Rightarrow> jsval \<Rightarrow> jsval \<Rightarrow> jsval \<times> error option" where
  "updateCartFromResponse rt cartData c =
     (case and_then (line_items rt cartData) (\<lambda>its. set_prop c ''items'' (JArr its)) of
        Inl e \<Rightarrow> (c, Some e)
      | Inr c1 \<Rightarrow>
         (case and_then (cart_total rt cartData) (\<lambda>t. set_prop c1 ''total'' t) of
            Inl e \<Rightarrow> (c1, Some e)
          | Inr c2 \<Rightarrow>
             (case and_then (get cartData ''checkoutUrl'')
                     (\<lambda>u. set_prop c2 ''checkoutUrl'' u) of
                Inl e \<Rightarrow> (c2, Some e)
              | Inr c3 \<Rightarrow> (c3, None))))"

section \<open>The validator: validateCart\<close>

text \<open>
  The callback of \<open>filter\<close>:
  \<^verbatim>\<open>
    if (!item.variant) return true;
    return !this.shopify.isVariantAvailable(item.variant);
  \<close>
\<close>

definition item_invalid :: "jsval \<Rightarrow> error + bool" where
  "item_invalid item =
     and_then (get item ''variant'') (\<lambda>variant.
       Inr (if \<not> truthy variant then True
            else \<not> ShopifyStorefront_isVariantAvailable variant))"

text \<open>\<open>item.variant?.product?.title || 'Unknown item'\<close>, on an item that passed the filter
  (so \<open>item.variant\<close> does not throw).\<close>

definition item_name :: "jsval \<Rightarrow> jsval" where
  "item_name item =
     (let title = opt_get (opt_get (js_prop item ''variant'') ''product'') ''title''
      in if truthy title then title else JStr ''Unknown item'')"

definition msg_empty :: string where
  "msg_empty = ''Your cart is empty. Add some items to proceed.''"

definition msg_unavailable :: "string \<Rightarrow> string" where
  "msg_unavailable names = ''These items are no longer available: '' @ names"

definition msg_total :: string where
  "msg_total = ''Cart total must be greater than $0.00''"

text \<open>
  \<^verbatim>\<open>
    if (this.cart.items.length === 0) push('Your cart is empty. ...');
    const invalidItems = this.cart.items.filter(...);
    if (invalidItems.length > 0) {
        const itemNames = invalidItems.map(item => item.variant?.product?.title || 'Unknown item');
        push(`These items are no longer available: ${itemNames.join(', ')}`);
    }
    if (this.cart.total < 0.01) push('Cart total must be greater than $0.00');
    return validationMessages;
  \<close>
\<close>

definition validateCart :: "runtime \<Rightarrow> jsval \<Rightarrow> error + string list" where
  "validateCart rt c =
     and_then (get c ''items'') (\<lambda>items.
     and_then (get items ''length'') (\<lambda>len.
     and_then (js_filter item_invalid items) (\<lambda>invalidItems.
       Inr ((if strict_eq len (JNum 0) then [msg_empty] else [])
          @ (if invalidItems \<noteq> []
             then [msg_unavailable
                     (join_strings '', '' (map (\<lambda>item. to_string rt (item_name item)) invalidItems))]
             else [])
          @ (if js_less rt (js_prop c ''total'') (1 / 100) then [msg_total] else [])))))"

section \<open>The application state\<close>

text \<open>
  What \<open>MultiStoreApp\<close> keeps and what it does to the outside: \<open>this.cart\<close>, the
  in-flight flag \<open>this.isCheckingOut\<close>, the entry \<open>shopify-cart\<close> of \<open>localStorage\<close>
  (\<open>None\<close> when there is none), the messages given to \<open>showError\<close> and \<open>showSuccess\<close>, the
  requests sent through \<open>this.shopify\<close>, in order, and whether the timer that navigates to
  the checkout page has been set. The page elements the methods write to are taken to
  exist, and \<open>localStorage.setItem\<close> to have room.
\<close>

datatype notice = ShowError string "error option" | ShowSuccess string

text \<open>\<open>ShowError text (Some e)\<close> is \<open>showError(text + e.message)\<close>.\<close>

datatype request =
    Req_createCart jsval jsval
  | Req_addToCart jsval jsval jsval
  | Req_updateCartLine jsval jsval jsval
  | Req_removeFromCart jsval "jsval list"
  | Req_getCart jsval

record app =
  cart :: jsval
  isCheckingOut :: bool
  storage :: "string option"
  notices :: "notice list"
  requests :: "request list"
  redirecting :: bool

definition showError :: "string \<Rightarrow> error option \<Rightarrow> app \<Rightarrow> app" where
  "showError text e s = s\<lparr>notices := notices s @ [ShowError text e]\<rparr>"

definition showSuccess :: "string \<Rightarrow> app \<Rightarrow> app" where
  "showSuccess text s = s\<lparr>notices := notices s @ [ShowSuccess text]\<rparr>"

definition issue :: "request \<Rightarrow> app \<Rightarrow> app" where
  "issue rq s = s\<lparr>requests := requests s @ [rq]\<rparr>"

text \<open>The constructor's fields; \<open>init()\<close> then loads the configuration and the products
  and calls \<open>loadCartFromStorage\<close>.\<close>

definition initial_cart :: jsval where
  "initial_cart = JObj [(''id'', JNull), (''items'', JArr []), (''total'', JNum 0)]"

definition MultiStoreApp_constructor :: "string option \<Rightarrow> app" where
  "MultiStoreApp_constructor stored =
     \<lparr>cart = initial_cart, isCheckingOut = False, storage = stored,
      notices = [], requests = [], redirecting = False\<rparr>"

text \<open>A statement sequence inside a \<open>try\<close>: the state so far, and the exception if one
  was thrown.\<close>

definition then_do :: "app \<times> error option \<Rightarrow> (app \<Rightarrow> app \<times> error option) \<Rightarrow> app \<times> error option" where
  "then_do x f = (case x of (s, Some e) \<Rightarrow> (s, Some e) | (s, None) \<Rightarrow> f s)"

text \<open>\<open>catch (error) { this.showError(text + error.message); }\<close>\<close>

definition catch_with :: "string \<Rightarrow> app \<times> error option \<Rightarrow> app" where
  "catch_with text x = (case x of (s, Some e) \<Rightarrow> showError text (Some e) s | (s, None) \<Rightarrow> s)"

section \<open>Persistence\<close>

text \<open>
  \<^verbatim>\<open>
    localStorage.setItem('shopify-cart', JSON.stringify({
        id: this.cart.id, items: this.cart.items,
        total: this.cart.total, checkoutUrl: this.cart.checkoutUrl }));
  \<close>
\<close>

definition cart_record :: "jsval \<Rightarrow> jsval" where
  "cart_record c = JObj
     [(''id'', js_prop c ''id''), (''items'', js_prop c ''items''),
      (''total'', js_prop c ''total''), (''checkoutUrl'', js_prop c ''checkoutUrl'')]"

definition saveCartToStorage :: "runtime \<Rightarrow> app \<Rightarrow> error + app" where
  "saveCartToStorage rt s =
     (if nullish (cart s) then Inl TypeError
      else Inr (s\<lparr>storage := Some (JSON_stringify rt (cart_record (cart s)))\<rparr>))"

text \<open>\<open>n.toFixed(2)\<close>: a method of numbers only.\<close>

definition toFixed :: "jsval \<Rightarrow> error + unit" where
  "toFixed v = (case v of JNum q \<Rightarrow> Inr () | JNaN \<Rightarrow> Inr () | _ \<Rightarrow> Inl TypeError)"

definition updateCheckoutButton :: "runtime \<Rightarrow> jsval \<Rightarrow> error + unit" where
  "updateCheckoutButton rt c = and_then (validateCart rt c) (\<lambda>msgs. Inr ())"

text \<open>The template of one cart row reads \<open>item.variant.product.featuredImage?.url\<close>,
  \<open>item.variant.product.title\<close>, \<open>item.price.toFixed(2)\<close>, \<open>item.id\<close> and
  \<open>item.quantity\<close>; only what can throw is kept.\<close>

definition render_item :: "jsval \<Rightarrow> error + unit" where
  "render_item item =
     and_then (get item ''variant'') (\<lambda>variant.
     and_then (get variant ''product'') (\<lambda>product.
     and_then (get product ''featuredImage'') (\<lambda>featuredImage.
     and_then (get item ''price'') (\<lambda>price. toFixed price))))"

text \<open>
  \<open>renderCart()\<close> writes the page; the model keeps the exceptions the cart's data can
  cause.
  \<^verbatim>\<open>
    if (this.cart.items.length === 0) { ...; this.updateCheckoutButton(); return; }
    cartItems.innerHTML = this.cart.items.map(item => `...`).join('');
    ... `Total: $${this.cart.total.toFixed(2)}`;
    this.updateCheckoutButton();
  \<close>
\<close>

definition renderCart :: "runtime \<Rightarrow> jsval \<Rightarrow> error + unit" where
  "renderCart rt c =
     and_then (get c ''items'') (\<lambda>items.
     and_then (get items ''length'') (\<lambda>len.
       if strict_eq len (JNum 0) then updateCheckoutButton rt c
       else
         and_then (js_map render_item items) (\<lambda>rows.
         and_then (toFixed (js_prop c ''total'')) (\<lambda>u.
           updateCheckoutButton rt c))))"

text \<open>\<open>this.cart.items.reduce((total, item) => total + item.quantity, 0)\<close>\<close>

definition updateCartCount :: "jsval \<Rightarrow> error + unit" where
  "updateCartCount c =
     and_then (get c ''items'') (\<lambda>items.
     and_then (js_map (\<lambda>item. get item ''quantity'') items) (\<lambda>qs. Inr ()))"

text \<open>
  \<^verbatim>\<open>
    const saved = localStorage.getItem('shopify-cart');
    if (saved) {
        try {
            const cartData = JSON.parse(saved);
            this.cart = cartData;
            this.renderCart();
            this.updateCartCount();
        } catch (error) {
            console.warn('Failed to load cart from storage:', error);
            localStorage.removeItem('shopify-cart');
        }
    }
  \<close>
\<close>

definition loadCartFromStorage :: "runtime \<Rightarrow> app \<Rightarrow> app" where
  "loadCartFromStorage rt s =
     (case storage s of
        None \<Rightarrow> s
      | Some saved \<Rightarrow>
          if saved = [] then s
          else
            (case JSON_parse rt saved of
               None \<Rightarrow> s\<lparr>storage := None\<rparr>
             | Some cartData \<Rightarrow>
                 (case and_then (renderCart rt cartData) (\<lambda>u. updateCartCount cartData) of
                    Inl e \<Rightarrow> s\<lparr>cart := cartData, storage := None\<rparr>
                  | Inr u \<Rightarrow> s\<lparr>cart := cartData\<rparr>)))"

text \<open>
  \<open>ShopifyIntegration\<close> (assets/js/shopify-integration.js) reads the same record in its
  constructor, outside any \<open>try\<close>; \<open>getItem\<close> gives \<open>null\<close> when there is no record, and
  \<open>JSON.parse(null)\<close> parses the text \<open>null\<close>.
  \<^verbatim>\<open>
    this.cart = JSON.parse(localStorage.getItem('shopify-cart')) || {
        id: null, lines: [], totalQuantity: 0,
        cost: { totalAmount: { amount: '0', currencyCode: 'USD' } },
        checkoutUrl: null };
  \<close>
\<close>

definition ShopifyIntegration_default_cart :: jsval where
  "ShopifyIntegration_default_cart = JObj
     [(''id'', JNull), (''lines'', JArr []), (''totalQuantity'', JNum 0),
      (''cost'', JObj [(''totalAmount'',
                         JObj [(''amount'', JStr ''0''), (''currencyCode'', JStr ''USD'')])]),
      (''checkoutUrl'', JNull)]"

definition ShopifyIntegration_constructor_cart :: "runtime \<Rightarrow> string option \<Rightarrow> error + jsval" where
  "ShopifyIntegration_constructor_cart rt stored =
     (case JSON_parse rt (case stored of None \<Rightarrow> ''null'' | Some saved \<Rightarrow> saved) of
        None \<Rightarrow> Inl SyntaxError
      | Some v \<Rightarrow> Inr (if truthy v then v else ShopifyIntegration_default_cart))"

section \<open>Cart mutations\<close>

text \<open>
  Each mutation sends one request and waits for it. The outcome \<open>r\<close> of that request is
  an argument: \<open>Inl e\<close> when \<open>ShopifyStorefront.query\<close> throws (a transport failure, a
  status that is not 2xx, a GraphQL error list), \<open>Inr result\<close> with the \<open>data\<close> of the
  response otherwise.
\<close>

definition reconcile :: "runtime \<Rightarrow> jsval \<Rightarrow> app \<Rightarrow> app \<times> error option" where
  "reconcile rt cartData s =
     (case updateCartFromResponse rt cartData (cart s) of (c, e) \<Rightarrow> (s\<lparr>cart := c\<rparr>, e))"

text \<open>\<open>this.saveCartToStorage(); this.renderCart(); this.updateCartCount();\<close>\<close>

definition save_and_render :: "runtime \<Rightarrow> app \<Rightarrow> app \<times> error option" where
  "save_and_render rt s =
     (case saveCartToStorage rt s of
        Inl e \<Rightarrow> (s, Some e)
      | Inr s1 \<Rightarrow>
          (case and_then (renderCart rt (cart s1)) (\<lambda>u. updateCartCount (cart s1)) of
             Inl e \<Rightarrow> (s1, Some e)
           | Inr u \<Rightarrow> (s1, None)))"

text \<open>
  \<^verbatim>\<open>
    if (result.cartCreate) {
        this.cart.id = result.cartCreate.cart.id;
        this.updateCartFromResponse(result.cartCreate.cart);
    } else if (result.cartLinesAdd) {
        this.updateCartFromResponse(result.cartLinesAdd.cart);
    }
  \<close>
\<close>

definition addToCart_reconcile :: "runtime \<Rightarrow> jsval \<Rightarrow> app \<Rightarrow> app \<times> error option" where
  "addToCart_reconcile rt result s =
     (case get result ''cartCreate'' of
        Inl e \<Rightarrow> (s, Some e)
      | Inr cartCreate \<Rightarrow>
          if truthy cartCreate then
            (case and_then (get (js_prop cartCreate ''cart'') ''id'')
                    (\<lambda>newId. set_prop (cart s) ''id'' newId) of
               Inl e \<Rightarrow> (s, Some e)
             | Inr c1 \<Rightarrow> reconcile rt (js_prop cartCreate ''cart'') (s\<lparr>cart := c1\<rparr>))
          else
            (let cartLinesAdd = js_prop result ''cartLinesAdd''
             in if truthy cartLinesAdd then reconcile rt (js_prop cartLinesAdd ''cart'') s
                else (s, None)))"

text \<open>
  The \<open>try\<close> block of \<open>addToCart\<close>:
  \<^verbatim>\<open>
    if (this.cart.id) result = await this.shopify.addToCart(this.cart.id, variantId, 1);
    else              result = await this.shopify.createCart(variantId, 1);
    if (result.cartCreate) {...} else if (result.cartLinesAdd) {...}
    this.saveCartToStorage(); this.renderCart(); this.updateCartCount();
    this.showSuccess('Item added to cart!');
  \<close>
\<close>

definition addToCart_try :: "runtime \<Rightarrow> jsval \<Rightarrow> error + jsval \<Rightarrow> app \<Rightarrow> app \<times> error option" where
  "addToCart_try rt variantId r s =
     (case get (cart s) ''id'' of
        Inl e \<Rightarrow> (s, Some e)
      | Inr cartId \<Rightarrow>
          (let s1 = issue (if truthy cartId then Req_addToCart cartId variantId (JNum 1)
                           else Req_createCart variantId (JNum 1)) s
           in case r of
                Inl e \<Rightarrow> (s1, Some e)
              | Inr result \<Rightarrow>
                  then_do (then_do (addToCart_reconcile rt result s1) (save_and_render rt))
                    (\<lambda>s2. (showSuccess ''Item added to cart!'' s2, None))))"

text \<open>
  \<^verbatim>\<open>
    async addToCart(productId, variantId) {
        if (!variantId) { this.showError('Product variant not found'); return; }
        try { ... } catch (error) {
            this.showError('Failed to add item to cart: ' + error.message);
        }
    }
  \<close>
\<close>

definition addToCart :: "runtime \<Rightarrow> jsval \<Rightarrow> jsval \<Rightarrow> error + jsval \<Rightarrow> app \<Rightarrow> app" where
  "addToCart rt productId variantId r s =
     (if \<not> truthy variantId then showError ''Product variant not found'' None s
      else catch_with ''Failed to add item to cart: '' (addToCart_try rt variantId r s))"

text \<open>
  \<^verbatim>\<open>
    async removeFromCart(lineId) {
        try {
            const result = await this.shopify.removeFromCart(this.cart.id, [lineId]);
            this.updateCartFromResponse(result.cartLinesRemove.cart);
            this.saveCartToStorage(); this.renderCart(); this.updateCartCount();
        } catch (error) {
            this.showError('Failed to remove item from cart: ' + error.message);
        }
    }
  \<close>
\<close>

definition removeFromCart_try :: "runtime \<Rightarrow> jsval \<Rightarrow> error + jsval \<Rightarrow> app \<Rightarrow> app \<times> error option" where
  "removeFromCart_try rt lineId r s =
     (case get (cart s) ''id'' of
        Inl e \<Rightarrow> (s, Some e)
      | Inr cartId \<Rightarrow>
          (let s1 = issue (Req_removeFromCart cartId [lineId]) s
           in case r of
                Inl e \<Rightarrow> (s1, Some e)
              | Inr result \<Rightarrow>
                  (case and_then (get result ''cartLinesRemove'') (\<lambda>m. get m ''cart'') of
                     Inl e \<Rightarrow> (s1, Some e)
                   | Inr cartData \<Rightarrow>
                       then_do (reconcile rt cartData s1) (save_and_render rt))))"

definition removeFromCart :: "runtime \<Rightarrow> jsval \<Rightarrow> error + jsval \<Rightarrow> app \<Rightarrow> app" where
  "removeFromCart rt lineId r s =
     catch_with ''Failed to remove item from cart: '' (removeFromCart_try rt lineId r s)"

text \<open>\<open>xs[i]\<close>: \<open>undefined\<close> outside the array.\<close>

definition array_at :: "jsval \<Rightarrow> nat \<Rightarrow> jsval" where
  "array_at v i =
     (case v of JArr xs \<Rightarrow> (if i < length xs then xs ! i else JUndefined) | _ \<Rightarrow> JUndefined)"

text \<open>
  \<^verbatim>\<open>
    let newQuantity = currentQuantity;
    if (action === 'increase') newQuantity = currentQuantity + 1;
    else if (action === 'decrease') newQuantity = Math.max(0, currentQuantity - 1);
  \<close>
\<close>

definition newQuantity :: "runtime \<Rightarrow> jsval \<Rightarrow> jsval \<Rightarrow> jsval" where
  "newQuantity rt action currentQuantity =
     (if strict_eq action (JStr ''increase'') then js_plus_one rt currentQuantity
      else if strict_eq action (JStr ''decrease'') then js_max0_minus_one rt currentQuantity
      else currentQuantity)"

text \<open>
  The \<open>try\<close> block of \<open>updateQuantity\<close>:
  \<^verbatim>\<open>
    const result = await this.shopify.updateCartLine(this.cart.id, lineId, newQuantity);
    this.updateCartFromResponse(result.cartLinesUpdate.cart);
    this.saveCartToStorage(); this.renderCart(); this.updateCartCount();
  \<close>
\<close>

definition updateQuantity_try :: "runtime \<Rightarrow> jsval \<Rightarrow> jsval \<Rightarrow> error + jsval \<Rightarrow> app \<Rightarrow> app \<times> error option" where
  "updateQuantity_try rt lineId q r s =
     (case get (cart s) ''id'' of
        Inl e \<Rightarrow> (s, Some e)
      | Inr cartId \<Rightarrow>
          (let s1 = issue (Req_updateCartLine cartId lineId q) s
           in case r of
                Inl e \<Rightarrow> (s1, Some e)
              | Inr result \<Rightarrow>
                  (case and_then (get result ''cartLinesUpdate'') (\<lambda>m. get m ''cart'') of
                     Inl e \<Rightarrow> (s1, Some e)
                   | Inr cartData \<Rightarrow>
                       then_do (reconcile rt cartData s1) (save_and_render rt))))"

text \<open>
  \<open>updateQuantity(lineId, action)\<close>. The search for the line runs outside the \<open>try\<close>: an
  exception there rejects the call (\<open>Inl\<close>) before anything has changed.
  \<^verbatim>\<open>
    const lineIndex = this.cart.items.findIndex(item => item.id === lineId);
    if (lineIndex === -1) return;
    const currentQuantity = this.cart.items[lineIndex].quantity;
    ...
    if (newQuantity === 0) { await this.removeFromCart(lineId); return; }
    try { ... } catch (error) { this.showError('Failed to update cart: ' + error.message); }
  \<close>
\<close>

definition updateQuantity_run :: "runtime \<Rightarrow> jsval \<Rightarrow> jsval \<Rightarrow> error + jsval \<Rightarrow> app \<Rightarrow> error + app" where
  "updateQuantity_run rt lineId action r s =
     and_then (get (cart s) ''items'') (\<lambda>items.
     and_then (js_findIndex (\<lambda>item. and_then (get item ''id'')
                                      (\<lambda>i. Inr (strict_eq i lineId))) items) (\<lambda>found.
       case found of
         None \<Rightarrow> Inr s
       | Some lineIndex \<Rightarrow>
           and_then (get (array_at items lineIndex) ''quantity'') (\<lambda>currentQuantity.
             let q = newQuantity rt action currentQuantity
             in if strict_eq q (JNum 0) then Inr (removeFromCart rt lineId r s)
                else Inr (catch_with ''Failed to update cart: ''
                            (updateQuantity_try rt lineId q r s)))))"

text \<open>The state after the call, and the exception it was rejected with, if any.\<close>

definition updateQuantity :: "runtime \<Rightarrow> jsval \<Rightarrow> jsval \<Rightarrow> error + jsval \<Rightarrow> app \<Rightarrow> app \<times> error option" where
  "updateQuantity rt lineId action r s =
     (case updateQuantity_run rt lineId action r s of
        Inl e \<Rightarrow> (s, Some e)
      | Inr s1 \<Rightarrow> (s1, None))"

section \<open>The checkout guard\<close>

text \<open>
  \<open>checkout()\<close> is an \<open>async\<close> method: it runs until an \<open>await\<close>, gives the thread back,
  and goes on when the awaited promise settles. Other handlers (a second click) run in
  between. Each stretch between two suspensions is one function of the state; the phase
  says where the call is suspended, or how it ended.
\<close>

datatype phase =
    Finished
  | Rejected error
  | AwaitRefresh
  | AwaitValidated "error + string list"
  | AwaitDelay

definition msg_no_checkout_url :: string where
  "msg_no_checkout_url =
     ''Checkout URL is not available. Please refresh your cart and try again.''"

text \<open>
  From the call to the first suspension. \<open>validateCartWithRefresh()\<close> sends
  \<open>getCart(this.cart.id)\<close> when the cart has an id and waits for it; without an id it
  returns \<open>this.validateCart()\<close> at once, and \<open>checkout\<close> waits for that value.
  \<^verbatim>\<open>
    async checkout() {
        if (this.isCheckingOut) { return; }   // Prevent multiple checkout attempts
        if (!this.cart.checkoutUrl) {
            this.showError('Checkout URL is not available. ...');
            return;
        }
        const validationMessages = await this.validateCartWithRefresh();
        ...
    async validateCartWithRefresh() {
        if (this.cart.id) {
            try {
                const cartData = await this.shopify.getCart(this.cart.id);
  \<close>
\<close>

definition checkout_begin :: "runtime \<Rightarrow> app \<Rightarrow> app \<times> phase" where
  "checkout_begin rt s =
     (if isCheckingOut s then (s, Finished)
      else
        (case get (cart s) ''checkoutUrl'' of
           Inl e \<Rightarrow> (s, Rejected e)
         | Inr checkoutUrl \<Rightarrow>
             if \<not> truthy checkoutUrl then (showError msg_no_checkout_url None s, Finished)
             else
               (let cartId = js_prop (cart s) ''id''
                in if truthy cartId then (issue (Req_getCart cartId) s, AwaitRefresh)
                   else (s, AwaitValidated (validateCart rt (cart s))))))"

text \<open>
  The rest of \<open>validateCartWithRefresh()\<close>, once \<open>getCart\<close> has settled with \<open>r\<close>:
  \<^verbatim>\<open>
                if (cartData.cart) {
                    this.updateCartFromResponse(cartData.cart);
                    this.saveCartToStorage();
                }
            } catch (error) {
                console.warn('Failed to refresh cart data:', error);
                // Continue with cached data
            }
        }
        return this.validateCart();
  \<close>
\<close>

definition refresh_try :: "runtime \<Rightarrow> error + jsval \<Rightarrow> app \<Rightarrow> app \<times> error option" where
  "refresh_try rt r s =
     (case r of
        Inl e \<Rightarrow> (s, Some e)
      | Inr cartData \<Rightarrow>
          (case get cartData ''cart'' of
             Inl e \<Rightarrow> (s, Some e)
           | Inr c \<Rightarrow>
               if truthy c then
                 then_do (reconcile rt c s)
                   (\<lambda>s1. case saveCartToStorage rt s1 of
                            Inl e \<Rightarrow> (s1, Some e)
                          | Inr s2 \<Rightarrow> (s2, None))
               else (s, None)))"

definition validateCartWithRefresh_resume :: "runtime \<Rightarrow> error + jsval \<Rightarrow> app \<Rightarrow> app \<times> (error + string list)" where
  "validateCartWithRefresh_resume rt r s =
     (case refresh_try rt r s of (s1, e) \<Rightarrow> (s1, validateCart rt (cart s1)))"

definition checkout_refreshed :: "runtime \<Rightarrow> error + jsval \<Rightarrow> app \<Rightarrow> app \<times> phase" where
  "checkout_refreshed rt r s =
     (case validateCartWithRefresh_resume rt r s of (s1, v) \<Rightarrow> (s1, AwaitValidated v))"

text \<open>
  \<open>checkout\<close> goes on with the validator's answer \<open>v\<close>; \<open>setCheckoutLoading(true)\<close> only
  writes to the page.
  \<^verbatim>\<open>
        if (validationMessages.length > 0) {
            this.showError(validationMessages.join(' '));
            return;
        }
        try {
            this.isCheckingOut = true;
            this.setCheckoutLoading(true);
            await new Promise(resolve => setTimeout(resolve, 500));
  \<close>
\<close>

definition checkout_validated :: "error + string list \<Rightarrow> app \<Rightarrow> app \<times> phase" where
  "checkout_validated v s =
     (case v of
        Inl e \<Rightarrow> (s, Rejected e)
      | Inr validationMessages \<Rightarrow>
          if validationMessages \<noteq> [] then
            (showError (join_strings '' '' validationMessages) None s, Finished)
          else (s\<lparr>isCheckingOut := True\<rparr>, AwaitDelay))"

text \<open>
  After the delay of 500 ms. In the handler, \<open>setCheckoutLoading(false)\<close> calls
  \<open>updateCheckoutButton()\<close>, whose exception, if any, rejects the call.
  \<^verbatim>\<open>
            if (this.cart.items.length === 0) {
                throw new Error('Cart became empty during checkout');
            }
            this.showSuccess('Redirecting to secure checkout...');
            this.saveCartToStorage();
            setTimeout(() => { window.location.href = this.cart.checkoutUrl; }, 800);
        } catch (error) {
            this.isCheckingOut = false;
            this.setCheckoutLoading(false);
            this.showError('Checkout failed: ' + error.message);
        }
  \<close>
\<close>

definition redirect_try :: "runtime \<Rightarrow> app \<Rightarrow> app \<times> error option" where
  "redirect_try rt s =
     (case and_then (get (cart s) ''items'') (\<lambda>items. get items ''length'') of
        Inl e \<Rightarrow> (s, Some e)
      | Inr len \<Rightarrow>
          if strict_eq len (JNum 0) then (s, Some (Error ''Cart became empty during checkout''))
          else
            (let s1 = showSuccess ''Redirecting to secure checkout...'' s
             in case saveCartToStorage rt s1 of
                  Inl e \<Rightarrow> (s1, Some e)
                | Inr s2 \<Rightarrow> (s2\<lparr>redirecting := True\<rparr>, None)))"

definition checkout_after_delay :: "runtime \<Rightarrow> app \<Rightarrow> app \<times> phase" where
  "checkout_after_delay rt s =
     (case redirect_try rt s of
        (s1, None) \<Rightarrow> (s1, Finished)
      | (s1, Some e) \<Rightarrow>
          (let s2 = s1\<lparr>isCheckingOut := False\<rparr>
           in case updateCheckoutButton rt (cart s2) of
                Inl e2 \<Rightarrow> (s2, Rejected e2)
              | Inr u \<Rightarrow> (showError ''Checkout failed: '' (Some e) s2, Finished)))"

section \<open>JSON round trips\<close>

text \<open>
  What \<open>JSON.parse(JSON.stringify(v))\<close> returns, by the rules of the language: \<open>undefined\<close>
  has no JSON text (\<open>None\<close>); \<open>NaN\<close> is written as \<open>null\<close>; in an array an element
  without a JSON text is written as \<open>null\<close>; in an object a property without a JSON text is
  left out; everything else is written as it is.
\<close>

fun json_of :: "jsval \<Rightarrow> jsval option"
  and json_elems :: "jsval list \<Rightarrow> jsval list"
  and json_props :: "(string \<times> jsval) list \<Rightarrow> (string \<times> jsval) list" where
  "json_of JUndefined = None"
| "json_of JNull = Some JNull"
| "json_of (JBool b) = Some (JBool b)"
| "json_of (JNum q) = Some (JNum q)"
| "json_of JNaN = Some JNull"
| "json_of (JStr s) = Some (JStr s)"
| "json_of (JArr xs) = Some (JArr (json_elems xs))"
| "json_of (JObj ps) = Some (JObj (json_props ps))"
| "json_elems [] = []"
| "json_elems (x # xs) = (case json_of x of None \<Rightarrow> JNull | Some d \<Rightarrow> d) # json_elems xs"
| "json_props [] = []"
| "json_props ((k, v) # ps) =
     (case json_of v of None \<Rightarrow> json_props ps | Some d \<Rightarrow> (k, d) # json_props ps)"

text \<open>What a property whose value was \<open>v\<close> reads as after the round trip: a property that
  was left out reads as \<open>undefined\<close>.\<close>

definition json_read :: "jsval \<Rightarrow> jsval" where
  "json_read v = (case json_of v of None \<Rightarrow> JUndefined | Some d \<Rightarrow> d)"

text \<open>The JSON values: no \<open>undefined\<close> and no \<open>NaN\<close>, at any depth.\<close>

fun is_json :: "jsval \<Rightarrow> bool"
  and is_json_elems :: "jsval list \<Rightarrow> bool"
  and is_json_props :: "(string \<times> jsval) list \<Rightarrow> bool" where
  "is_json JUndefined = False"
| "is_json JNull = True"
| "is_json (JBool b) = True"
| "is_json (JNum q) = True"
| "is_json JNaN = False"
| "is_json (JStr s) = True"
| "is_json (JArr xs) = is_json_elems xs"
| "is_json (JObj ps) = is_json_props ps"
| "is_json_elems [] = True"
| "is_json_elems (x # xs) = (is_json x \<and> is_json_elems xs)"
| "is_json_props [] = True"
| "is_json_props ((k, v) # ps) = (is_json v \<and> is_json_props ps)"

text \<open>What the language promises of the two built-in functions of a runtime: a value that
  has a JSON text is written as a text that is not empty, and reading that text gives the
  value's JSON form.\<close>

definition json_conformant :: "runtime \<Rightarrow> bool" where
  "json_conformant rt =
     (\<forall>v d. json_of v = Some d \<longrightarrow>
        JSON_stringify rt v \<noteq> [] \<and> JSON_parse rt (JSON_stringify rt v) = Some d)"

section \<open>Fixtures\<close>

text \<open>
  A runtime for the concrete runs below. Its JSON functions write and read a compact text
  that stands for the engine's: \<open>null\<close>, \<open>true\<close> and \<open>false\<close> as in JSON; a number as
  \<open>#\<close>, the signed numerator and the denominator, each in unary with a closing dot; a
  string as \<open>$\<close>, its length and its characters; an array or an object as \<open>[\<close> or \<open>{\<close>,
  the number of entries and the entries. Any other text is malformed. Its \<open>parseFloat\<close>
  knows the amounts that the runs use.
\<close>

definition write_nat :: "nat \<Rightarrow> string" where
  "write_nat n = replicate n (CHR ''1'') @ ''.''"

fun read_nat :: "string \<Rightarrow> (nat \<times> string) option" where
  "read_nat [] = None"
| "read_nat (c # cs) =
     (if c = CHR ''1'' then (case read_nat cs of None \<Rightarrow> None | Some (n, r) \<Rightarrow> Some (Suc n, r))
      else if c = CHR ''.'' then Some (0, cs)
      else None)"

definition write_int :: "int \<Rightarrow> string" where
  "write_int a = (if a < 0 then CHR ''-'' else CHR ''+'') # write_nat (nat \<bar>a\<bar>)"

definition read_int :: "string \<Rightarrow> (int \<times> string) option" where
  "read_int t =
     (case t of
        [] \<Rightarrow> None
      | c # cs \<Rightarrow>
          if c = CHR ''-'' then
            (case read_nat cs of None \<Rightarrow> None | Some (n, r) \<Rightarrow> Some (- int n, r))
          else if c = CHR ''+'' then
            (case read_nat cs of None \<Rightarrow> None | Some (n, r) \<Rightarrow> Some (int n, r))
          else None)"

definition write_text :: "string \<Rightarrow> string" where
  "write_text s = write_nat (length s) @ s"

definition read_text :: "string \<Rightarrow> (string \<times> string) option" where
  "read_text t =
     (case read_nat t of
        None \<Rightarrow> None
      | Some (n, r) \<Rightarrow> if n \<le> length r then Some (take n r, drop n r) else None)"

fun write_json :: "jsval \<Rightarrow> string"
  and write_elems :: "jsval list \<Rightarrow> string"
  and write_props :: "(string \<times> jsval) list \<Rightarrow> string" where
  "write_json JUndefined = ''null''"
| "write_json JNull = ''null''"
| "write_json (JBool b) = (if b then ''true'' else ''false'')"
| "write_json (JNum q) =
     CHR ''#'' # write_int (fst (quotient_of q)) @ write_nat (nat (snd (quotient_of q)))"
| "write_json JNaN = ''null''"
| "write_json (JStr s) = CHR ''$'' # write_text s"
| "write_json (JArr xs) = CHR ''['' # write_nat (length xs) @ write_elems xs"
| "write_json (JObj ps) = CHR ''{'' # write_nat (length ps) @ write_props ps"
| "write_elems [] = []"
| "write_elems (x # xs) = write_json x @ write_elems xs"
| "write_props [] = []"
| "write_props ((k, v) # ps) = write_text k @ write_json v @ write_props ps"

primrec read_many :: "(string \<Rightarrow> ('a \<times> string) option) \<Rightarrow> nat \<Rightarrow> string \<Rightarrow> ('a list \<times> string) option" where
  "read_many d 0 t = Some ([], t)"
| "read_many d (Suc k) t =
     (case d t of
        None \<Rightarrow> None
      | Some (x, r) \<Rightarrow>
          (case read_many d k r of None \<Rightarrow> None | Some (xs, r1) \<Rightarrow> Some (x # xs, r1)))"

definition read_prop :: "(string \<Rightarrow> (jsval \<times> string) option) \<Rightarrow> string \<Rightarrow> ((string \<times> jsval) \<times> string) option" where
  "read_prop d t =
     (case read_text t of
        None \<Rightarrow> None
      | Some (k, r) \<Rightarrow> (case d r of None \<Rightarrow> None | Some (v, r1) \<Rightarrow> Some ((k, v), r1)))"

text \<open>The reader takes a bound on the nesting it follows; the length of the text is
  enough.\<close>

primrec read_json :: "nat \<Rightarrow> string \<Rightarrow> (jsval \<times> string) option" where
  "read_json 0 t = None"
| "read_json (Suc n) t =
     (case t of
        [] \<Rightarrow> None
      | c # cs \<Rightarrow>
          if c = CHR ''n'' then
            (if take 3 cs = ''ull'' then Some (JNull, drop 3 cs) else None)
          else if c = CHR ''t'' then
            (if take 3 cs = ''rue'' then Some (JBool True, drop 3 cs) else None)
          else if c = CHR ''f'' then
            (if take 4 cs = ''alse'' then Some (JBool False, drop 4 cs) else None)
          else if c = CHR ''#'' then
            (case read_int cs of
               None \<Rightarrow> None
             | Some (a, r) \<Rightarrow>
                 (case read_nat r of
                    None \<Rightarrow> None
                  | Some (b, r1) \<Rightarrow> Some (JNum (of_int a / of_nat b), r1)))
          else if c = CHR ''$'' then
            (case read_text cs of None \<Rightarrow> None | Some (s, r) \<Rightarrow> Some (JStr s, r))
          else if c = CHR ''['' then
            (case read_nat cs of
               None \<Rightarrow> None
             | Some (k, r) \<Rightarrow>
                 (case read_many (read_json n) k r of
                    None \<Rightarrow> None
                  | Some (xs, r1) \<Rightarrow> Some (JArr xs, r1)))
          else if c = CHR ''{'' then
            (case read_nat cs of
               None \<Rightarrow> None
             | Some (k, r) \<Rightarrow>
                 (case read_many (read_prop (read_json n)) k r of
                    None \<Rightarrow> None
                  | Some (ps, r1) \<Rightarrow> Some (JObj ps, r1)))
          else None)"

text \<open>\<open>JSON.stringify(undefined)\<close> is \<open>undefined\<close>, which \<open>setItem\<close> stores as that
  word.\<close>

definition fixture_stringify :: "jsval \<Rightarrow> string" where
  "fixture_stringify v = (case json_of v of None \<Rightarrow> ''undefined'' | Some d \<Rightarrow> write_json d)"

definition fixture_parse :: "string \<Rightarrow> jsval option" where
  "fixture_parse t =
     (case read_json (length t) t of Some (v, []) \<Rightarrow> Some v | _ \<Rightarrow> None)"

definition fixture_cart :: jsval where
  "fixture_cart = JObj
     [(''id'', JStr ''gid://shopify/Cart/1''),
      (''items'', JArr [JObj
         [(''id'', JStr ''line-1''), (''quantity'', JNum 2),
          (''variant'', JObj [(''availableForSale'', JBool True),
                              (''product'', JObj [(''title'', JStr ''Balm'')])]),
          (''price'', JNum 10)]]),
      (''total'', JNum 25),
      (''checkoutUrl'', JStr ''https://shop.example/checkout/1'')]"

definition fixture_runtime :: runtime where
  "fixture_runtime =
     \<lparr>parseFloat = (\<lambda>v. if v = JStr ''25.00'' then JNum 25
                         else if v = JStr ''10.00'' then JNum 10
                         else if v = JStr ''0.0'' \<or> v = JStr ''0'' then JNum 0
                         else JNaN),
      JSON_parse = fixture_parse,
      JSON_stringify = fixture_stringify,
      ToString = (\<lambda>v. ''[object Object]''),
      StringToNumber = (\<lambda>text. JNaN)\<rparr>"

definition fixture_app :: app where
  "fixture_app =
     \<lparr>cart = fixture_cart, isCheckingOut = False, storage = None,
      notices = [], requests = [], redirecting = False\<rparr>"

text \<open>A \<open>getCart\<close> payload with one line of two units at 10.00 each and a declared total
  of 25.00; the same payload without its \<open>lines\<close>; a payload of an emptied cart.\<close>

definition fixture_payload :: jsval where
  "fixture_payload = JObj
     [(''id'', JStr ''gid://shopify/Cart/1''),
      (''lines'', JObj [(''edges'', JArr [JObj [(''node'', JObj
         [(''id'', JStr ''line-1''), (''quantity'', JNum 2),
          (''merchandise'', JObj
             [(''id'', JStr ''variant-1''), (''availableForSale'', JBool True),
              (''priceV2'', JObj [(''amount'', JStr ''10.00''),
                                  (''currencyCode'', JStr ''USD'')]),
              (''product'', JObj [(''title'', JStr ''Balm'')])])])]])]),
      (''estimatedCost'', JObj [(''totalAmount'',
          JObj [(''amount'', JStr ''25.00''), (''currencyCode'', JStr ''USD'')])]),
      (''checkoutUrl'', JStr ''https://shop.example/checkout/1'')]"


definition payload_with_no_edges :: jsval where
  "payload_with_no_edges = JObj
     [(''id'', JStr ''gid://shopify/Cart/1''),
      (''lines'', JObj [(''edges'', JArr [])]),
      (''estimatedCost'', JObj [(''totalAmount'',
          JObj [(''amount'', JStr ''0.0''), (''currencyCode'', JStr ''USD'')])]),
      (''checkoutUrl'', JStr ''https://shop.example/checkout/1'')]"

text \<open>A cart whose only line is not for sale, with total 0; a cart with an available line
  and a total of half a cent.\<close>

definition unavailable_item :: jsval where
  "unavailable_item = JObj
     [(''id'', JStr ''line-1''), (''quantity'', JNum 1),
      (''variant'', JObj [(''availableForSale'', JBool False),
                          (''product'', JObj [(''title'', JStr ''Balm'')])]),
      (''price'', JNum 0)]"

definition unavailable_cart :: jsval where
  "unavailable_cart = JObj
     [(''id'', JStr ''gid://shopify/Cart/1''),
      (''items'', JArr [unavailable_item]),
      (''total'', JNum 0),
      (''checkoutUrl'', JStr ''https://shop.example/checkout/1'')]"

definition half_cent_cart :: jsval where
  "half_cent_cart = JObj
     [(''id'', JStr ''gid://shopify/Cart/1''),
      (''items'', JArr [JObj
         [(''id'', JStr ''line-1''), (''quantity'', JNum 1),
          (''variant'', JObj [(''availableForSale'', JBool True),
                              (''product'', JObj [(''title'', JStr ''Balm'')])]),
          (''price'', JNum (1 / 200))]]),
      (''total'', JNum (1 / 200)),
      (''checkoutUrl'', JStr ''https://shop.example/checkout/1'')]"

text \<open>The cart that reconciling \<open>fixture_payload\<close> into the cart of a new session
  leaves: the four inventory fields the payload does not carry are own properties with
  value \<open>undefined\<close>. And a cart whose total is \<open>NaN\<close>, as \<open>parseFloat\<close> leaves it when
  the payload's amount is not a number.\<close>

definition reconciled_cart :: jsval where
  "reconciled_cart = JObj
     [(''id'', JNull),
      (''items'', JArr [JObj
         [(''id'', JStr ''line-1''), (''quantity'', JNum 2),
          (''variant'', JObj
             [(''id'', JStr ''variant-1''), (''availableForSale'', JBool True),
              (''priceV2'', JObj [(''amount'', JStr ''10.00''),
                                  (''currencyCode'', JStr ''USD'')]),
              (''product'', JObj [(''title'', JStr ''Balm'')]),
              (''quantityAvailable'', JUndefined),
              (''currentlyNotInStock'', JUndefined),
              (''inventoryManagement'', JUndefined),
              (''inventoryPolicy'', JUndefined)]),
          (''price'', JNum 10)]]),
      (''total'', JNum 25),
      (''checkoutUrl'', JStr ''https://shop.example/checkout/1'')]"

definition reconciled_app :: app where
  "reconciled_app =
     \<lparr>cart = reconciled_cart, isCheckingOut = False, storage = None,
      notices = [], requests = [], redirecting = False\<rparr>"

definition nan_total_app :: app where
  "nan_total_app =
     \<lparr>cart = JObj [(''id'', JStr ''gid://shopify/Cart/1''), (''items'', JArr []),
                   (''total'', JNaN),
                   (''checkoutUrl'', JStr ''https://shop.example/checkout/1'')],
      isCheckingOut = False, storage = None,
      notices = [], requests = [], redirecting = False\<rparr>"

text \<open>A state with a checkout in flight and a cart that has no checkout URL.\<close>

definition inflight_app :: app where
  "inflight_app =
     \<lparr>cart = initial_cart, isCheckingOut = True, storage = None,
      notices = [], requests = [], redirecting = False\<rparr>"

section \<open>Availability: theorems\<close>

lemma strict_eq_simps [simp]:
  "strict_eq a (JBool b) = (a = JBool b)"
  "strict_eq a (JStr s) = (a = JStr s)"
  "strict_eq a (JNum q) = (a = JNum q)"
  "strict_eq a JNull = (a = JNull)"
  by (auto simp: strict_eq_def)

lemma isVariantAvailable_production:
  "ShopifyStorefront_isVariantAvailable v
     = (truthy v \<and> js_prop v ''availableForSale'' \<noteq> JBool False)"
  by (simp add: ShopifyStorefront_isVariantAvailable_def)

text \<open>The demo method is the decision table of the specification, row by row.\<close>

lemma isVariantAvailable_demo_table:
  "ShopifyStorefrontDemo_isVariantAvailable v =
     (truthy v \<and>
       (\<not> truthy (js_prop v ''inventoryManagement'')
        \<or> js_prop v ''inventoryPolicy'' = JStr ''CONTINUE''
        \<or> js_prop v ''availableForSale'' = JBool True
        \<or> \<not> (js_prop v ''inventoryPolicy'' = JStr ''DENY''
              \<and> js_prop v ''availableForSale'' = JBool False)))"
  by (auto simp: ShopifyStorefrontDemo_isVariantAvailable_def Let_def)

text \<open>
  Claim C1. The availability function follows the decision table: in particular a variant
  whose oversell policy is CONTINUE is available even when its sale flag is false. The
  demo method does so; the method of \<open>ShopifyStorefront\<close>, which the application calls,
  returns false on the demo's own second test case, because it looks at the sale flag only.
\<close>

theorem isVariantAvailable_continue_policy_diverges:
  "ShopifyStorefront_isVariantAvailable productWithContinuePolicy = False
   \<and> ShopifyStorefrontDemo_isVariantAvailable productWithContinuePolicy = True"
  by (simp add: ShopifyStorefront_isVariantAvailable_def
        ShopifyStorefrontDemo_isVariantAvailable_def productWithContinuePolicy_def)

theorem isVariantAvailable_continue_policy_diverges_witness:
  "ShopifyStorefront_isVariantAvailable productWithContinuePolicy
     \<noteq> ShopifyStorefrontDemo_isVariantAvailable productWithContinuePolicy"
  using isVariantAvailable_continue_policy_diverges by simp

section \<open>Basic facts\<close>

lemma and_then_simps [simp]:
  "and_then (Inl e) f = Inl e"
  "and_then (Inr x) f = f x"
  by (simp_all add: and_then_def)

lemma catch_with_fields [simp]:
  "cart (catch_with text x) = cart (fst x)"
  "storage (catch_with text x) = storage (fst x)"
  "isCheckingOut (catch_with text x) = isCheckingOut (fst x)"
  by (auto simp: catch_with_def showError_def split: prod.splits option.splits)

lemma issue_fields [simp]:
  "cart (issue rq s) = cart s"
  "storage (issue rq s) = storage s"
  "isCheckingOut (issue rq s) = isCheckingOut s"
  by (simp_all add: issue_def)

lemma showError_fields [simp]:
  "cart (showError text e s) = cart s"
  "storage (showError text e s) = storage s"
  "isCheckingOut (showError text e s) = isCheckingOut s"
  by (simp_all add: showError_def)

section \<open>Mutations whose request fails\<close>

lemma addToCart_try_failed:
  "cart (fst (addToCart_try rt variantId (Inl e) s)) = cart s"
  "storage (fst (addToCart_try rt variantId (Inl e) s)) = storage s"
  by (auto simp: addToCart_try_def Let_def split: sum.splits)

lemma removeFromCart_try_failed:
  "cart (fst (removeFromCart_try rt lineId (Inl e) s)) = cart s"
  "storage (fst (removeFromCart_try rt lineId (Inl e) s)) = storage s"
  by (auto simp: removeFromCart_try_def Let_def split: sum.splits)

lemma updateQuantity_try_failed:
  "cart (fst (updateQuantity_try rt lineId q (Inl e) s)) = cart s"
  "storage (fst (updateQuantity_try rt lineId q (Inl e) s)) = storage s"
  by (auto simp: updateQuantity_try_def Let_def split: sum.splits)

lemma removeFromCart_failed:
  "cart (removeFromCart rt lineId (Inl e) s) = cart s"
  "storage (removeFromCart rt lineId (Inl e) s) = storage s"
  by (simp_all add: removeFromCart_def removeFromCart_try_failed)

text \<open>A decrease to zero hands the call over to \<open>removeFromCart\<close>; either way the one
  request fails and nothing is reconciled.\<close>

lemma updateQuantity_run_failed:
  assumes "updateQuantity_run rt lineId action (Inl e) s = Inr s1"
  shows "cart s1 = cart s \<and> storage s1 = storage s"
  using assms unfolding updateQuantity_run_def and_then_def Let_def
  by (auto split: sum.splits option.splits if_splits
           simp: removeFromCart_failed updateQuantity_try_failed)

text \<open>
  Claim C10. When the remote call of a cart mutation (add to cart, update quantity, remove
  line) fails, the cart after the operation is the cart before it, and so is the stored
  record: reconciliation and persistence happen only after a successful call.
\<close>

theorem failed_mutation_keeps_cart:
  "cart (addToCart rt productId variantId (Inl e) s) = cart s
   \<and> storage (addToCart rt productId variantId (Inl e) s) = storage s
   \<and> cart (removeFromCart rt lineId (Inl e) s) = cart s
   \<and> storage (removeFromCart rt lineId (Inl e) s) = storage s
   \<and> cart (fst (updateQuantity rt lineId action (Inl e) s)) = cart s
   \<and> storage (fst (updateQuantity rt lineId action (Inl e) s)) = storage s"
proof -
  have add: "cart (addToCart rt productId variantId (Inl e) s) = cart s
      \<and> storage (addToCart rt productId variantId (Inl e) s) = storage s"
    by (simp add: addToCart_def addToCart_try_failed)
  have upd: "cart (fst (updateQuantity rt lineId action (Inl e) s)) = cart s
      \<and> storage (fst (updateQuantity rt lineId action (Inl e) s)) = storage s"
  proof (cases "updateQuantity_run rt lineId action (Inl e) s")
    case (Inl e')
    then show ?thesis by (simp add: updateQuantity_def)
  next
    case (Inr s1)
    with updateQuantity_run_failed [OF Inr] show ?thesis by (simp add: updateQuantity_def)
  qed
  from add upd show ?thesis by (simp add: removeFromCart_failed)
qed

section \<open>Property reads and writes\<close>

lemma js_prop_update:
  "js_prop (JObj (AList.update k v ps)) k' = (if k' = k then v else js_prop (JObj ps) k')"
  by (simp add: AList.update_conv')

lemma set_prop_Inr:
  assumes "set_prop c k v = Inr c'"
  shows "\<forall>k'. js_prop c' k' = (if k' = k then v else js_prop c k')"
proof (cases c)
  case (JObj ps)
  with assms show ?thesis
    by (auto simp: set_prop_def js_prop_update simp del: js_prop.simps)
next
  case (JArr xs)
  with assms
  have c': "c' = JObj (AList.update k v [(''length'', JNum (of_nat (length xs)))])"
    by (simp add: set_prop_def)
  show ?thesis unfolding c' JArr js_prop_update by simp
qed (use assms in \<open>simp_all add: set_prop_def\<close>)

lemma nullish_prop [simp]: "nullish v \<Longrightarrow> js_prop v k = JUndefined"
  by (auto simp: nullish_def)

text \<open>A cart that is an array (a stored record \<open>[]\<close> was loaded) takes the three
  assignments of the reconciler like an object.\<close>

lemma reconcile_into_array_cart:
  "updateCartFromResponse fixture_runtime payload_with_no_edges (JArr []) =
     (JObj [(''length'', JNum 0), (''items'', JArr []), (''total'', JNum 0),
            (''checkoutUrl'', JStr ''https://shop.example/checkout/1'')], None)"
  by (simp add: updateCartFromResponse_def line_items_def cart_total_def js_map_def
        set_prop_def get_def nullish_def payload_with_no_edges_def fixture_runtime_def)

section \<open>The reconciler: theorems\<close>


lemma cart_total_Inr:
  "cart_total rt cartData = Inr t \<Longrightarrow>
     t = (if truthy (js_prop cartData ''estimatedCost'')
          then parseFloat rt (js_prop (js_prop (js_prop cartData ''estimatedCost'')
                                        ''totalAmount'') ''amount'')
          else JNum 0)"
  by (auto simp: cart_total_def and_then_def get_def split: sum.splits if_splits)

lemma reconcile_fixture_payload:
  "updateCartFromResponse fixture_runtime fixture_payload initial_cart =
     (JObj [(''id'', JNull),
            (''items'', JArr [JObj
               [(''id'', JStr ''line-1''), (''quantity'', JNum 2),
                (''variant'', JObj
                   [(''id'', JStr ''variant-1''), (''availableForSale'', JBool True),
                    (''priceV2'', JObj [(''amount'', JStr ''10.00''),
                                        (''currencyCode'', JStr ''USD'')]),
                    (''product'', JObj [(''title'', JStr ''Balm'')]),
                    (''quantityAvailable'', JUndefined),
                    (''currentlyNotInStock'', JUndefined),
                    (''inventoryManagement'', JUndefined),
                    (''inventoryPolicy'', JUndefined)]),
                (''price'', JNum 10)]]),
            (''total'', JNum 25),
            (''checkoutUrl'', JStr ''https://shop.example/checkout/1'')], None)"
  by (simp add: updateCartFromResponse_def line_items_def line_item_def line_variant_def
        own_props_def cart_total_def js_map_def set_prop_def get_def nullish_def
        fixture_payload_def initial_cart_def fixture_runtime_def)

lemma reconcile_fixture_payload_cart:
  "updateCartFromResponse fixture_runtime fixture_payload initial_cart = (reconciled_cart, None)"
  by (simp add: reconcile_fixture_payload reconciled_cart_def)

text \<open>
  Claim C5. The total stored by the reconciler is the total the remote payload declares in
  its cost field (\<open>estimatedCost.totalAmount.amount\<close>, through \<open>parseFloat\<close>), whatever the
  lines are; it is never a sum over the lines. A payload without the cost field stores 0.
\<close>

theorem reconciled_total_is_declared:
  assumes "updateCartFromResponse rt cartData c = (c', None)"
  shows "js_prop c' ''total'' =
           (if truthy (js_prop cartData ''estimatedCost'')
            then parseFloat rt (js_prop (js_prop (js_prop cartData ''estimatedCost'')
                                          ''totalAmount'') ''amount'')
            else JNum 0)"
  using assms unfolding updateCartFromResponse_def
  by (auto simp: and_then_def split: sum.splits dest!: set_prop_Inr cart_total_Inr)

text \<open>Two units at 10.00 and a declared total of 25.00: the stored total is 25.\<close>

theorem reconciled_total_is_declared_witness:
  "snd (updateCartFromResponse fixture_runtime fixture_payload initial_cart) = None
   \<and> js_prop (fst (updateCartFromResponse fixture_runtime fixture_payload initial_cart))
        ''total'' = JNum 25"
proof -
  have s: "snd (updateCartFromResponse fixture_runtime fixture_payload initial_cart) = None"
    by (simp add: reconcile_fixture_payload)
  then have h: "updateCartFromResponse fixture_runtime fixture_payload initial_cart
      = (fst (updateCartFromResponse fixture_runtime fixture_payload initial_cart), None)"
    by (simp add: prod_eq_iff)
  have "js_prop (fst (updateCartFromResponse fixture_runtime fixture_payload initial_cart))
          ''total''
        = (if truthy (js_prop fixture_payload ''estimatedCost'')
           then parseFloat fixture_runtime
                  (js_prop (js_prop (js_prop fixture_payload ''estimatedCost'')
                     ''totalAmount'') ''amount'')
           else JNum 0)"
    by (rule reconciled_total_is_declared [OF h])
  also have "\<dots> = JNum 25"
    by (simp add: fixture_payload_def fixture_runtime_def)
  finally show ?thesis using s by simp
qed




section \<open>The validator: theorems\<close>

lemma validateCart_array:
  assumes "js_prop c ''items'' = JArr items"
      and "filter_throw item_invalid items = Inr invalid"
  shows "validateCart rt c =
           Inr ((if items = [] then [msg_empty] else [])
              @ (if invalid \<noteq> []
                 then [msg_unavailable
                         (join_strings '', ''
                            (map (\<lambda>item. to_string rt (item_name item)) invalid))]
                 else [])
              @ (if js_less rt (js_prop c ''total'') (1 / 100) then [msg_total] else []))"
proof -
  have "\<not> nullish c" using assms(1) by (auto simp: nullish_def)
  then have g: "get c ''items'' = Inr (JArr items)" using assms(1) by (simp add: get_def)
  have l: "get (JArr items) ''length'' = Inr (JNum (of_nat (length items)))"
    by (simp add: get_def nullish_def)
  show ?thesis
    by (simp add: validateCart_def g l js_filter_def assms(2))
qed

lemma msg_total_distinct:
  "msg_total \<noteq> msg_empty" "msg_total \<noteq> msg_unavailable names"
  by (simp_all add: msg_total_def msg_empty_def msg_unavailable_def)

lemma validateCart_total_message:
  assumes "validateCart rt c = Inr msgs"
  shows "(msg_total \<in> set msgs) = js_less rt (js_prop c ''total'') (1 / 100)"
  using assms unfolding validateCart_def and_then_def
  by (auto split: sum.splits if_splits
           simp: msg_total_distinct msg_total_distinct [symmetric])

lemma validate_initial_cart: "validateCart rt initial_cart = Inr [msg_empty, msg_total]"
  by (simp add: validateCart_def initial_cart_def get_def nullish_def js_filter_def js_less_def)

lemma validate_half_cent_cart: "validateCart rt half_cent_cart = Inr [msg_total]"
  by (simp add: validateCart_def half_cent_cart_def get_def nullish_def js_filter_def
        js_less_def item_invalid_def ShopifyStorefront_isVariantAvailable_def)

lemma validate_fixture_cart: "validateCart rt fixture_cart = Inr []"
  by (simp add: validateCart_def fixture_cart_def get_def nullish_def js_filter_def js_less_def
        item_invalid_def ShopifyStorefront_isVariantAvailable_def)

lemma unavailable_item_invalid: "item_invalid unavailable_item = Inr True"
  by (simp add: item_invalid_def unavailable_item_def get_def nullish_def
        ShopifyStorefront_isVariantAvailable_def)

text \<open>
  Claim C6, as amended. The validator is additive and ordered. On a cart with no lines it
  returns the empty-cart message first, no unavailability message, and then the total
  message exactly when the total is below 0.01 (so the empty cart with total 0 gets both).
  On a cart with one line that fails the availability check and total 0 it returns the
  unavailability message naming the item and then the total message. The total message
  appears exactly when \<open>total < 0.01\<close>. An empty list lets the checkout go on; any other
  list is shown and ends it.
\<close>

theorem validateCart_composition:
  "(js_prop c ''items'' = JArr [] \<longrightarrow>
      validateCart rt c =
        Inr (msg_empty # (if js_less rt (js_prop c ''total'') (1 / 100) then [msg_total] else [])))
   \<and> (js_prop c ''items'' = JArr [item] \<and> item_invalid item = Inr True
        \<and> js_prop c ''total'' = JNum 0 \<longrightarrow>
      validateCart rt c = Inr [msg_unavailable (to_string rt (item_name item)), msg_total])
   \<and> (validateCart rt c = Inr msgs \<longrightarrow>
      (msg_total \<in> set msgs) = js_less rt (js_prop c ''total'') (1 / 100))
   \<and> checkout_validated (Inr []) s = (s\<lparr>isCheckingOut := True\<rparr>, AwaitDelay)
   \<and> (msgs \<noteq> [] \<longrightarrow>
      checkout_validated (Inr msgs) s = (showError (join_strings '' '' msgs) None s, Finished))"
proof (intro conjI impI)
  assume "js_prop c ''items'' = JArr []"
  from validateCart_array [OF this, of "[]" rt]
  show "validateCart rt c =
        Inr (msg_empty # (if js_less rt (js_prop c ''total'') (1 / 100) then [msg_total] else []))"
    by simp
next
  assume a: "js_prop c ''items'' = JArr [item] \<and> item_invalid item = Inr True
        \<and> js_prop c ''total'' = JNum 0"
  then have f: "filter_throw item_invalid [item] = Inr [item]" by simp
  from a have i: "js_prop c ''items'' = JArr [item]" by simp
  from validateCart_array [OF i f, of rt] a
  show "validateCart rt c = Inr [msg_unavailable (to_string rt (item_name item)), msg_total]"
    by (simp add: js_less_def)
next
  assume "validateCart rt c = Inr msgs"
  then show "(msg_total \<in> set msgs) = js_less rt (js_prop c ''total'') (1 / 100)"
    by (rule validateCart_total_message)
next
  show "checkout_validated (Inr []) s = (s\<lparr>isCheckingOut := True\<rparr>, AwaitDelay)"
    by (simp add: checkout_validated_def)
next
  assume "msgs \<noteq> []"
  then show "checkout_validated (Inr msgs) s
               = (showError (join_strings '' '' msgs) None s, Finished)"
    by (simp add: checkout_validated_def)
qed

theorem validateCart_composition_witness:
  "js_prop initial_cart ''items'' = JArr []
   \<and> validateCart fixture_runtime initial_cart = Inr [msg_empty, msg_total]
   \<and> js_prop unavailable_cart ''items'' = JArr [unavailable_item]
   \<and> item_invalid unavailable_item = Inr True
   \<and> js_prop unavailable_cart ''total'' = JNum 0
   \<and> validateCart fixture_runtime unavailable_cart
       = Inr [msg_unavailable ''Balm'', msg_total]
   \<and> msg_total \<in> set [msg_unavailable ''Balm'', msg_total]
   \<and> js_less fixture_runtime (js_prop unavailable_cart ''total'') (1 / 100)
   \<and> checkout_validated (Inr [msg_unavailable ''Balm'', msg_total]) fixture_app
       = (showError (join_strings '' '' [msg_unavailable ''Balm'', msg_total]) None fixture_app,
          Finished)"
proof -
  have e: "js_prop initial_cart ''items'' = JArr []"
    by (simp add: initial_cart_def)
  have l: "js_less fixture_runtime (js_prop initial_cart ''total'') (1 / 100)"
    by (simp add: initial_cart_def js_less_def)
  note th0 = validateCart_composition
    [of initial_cart fixture_runtime unavailable_item "[msg_empty, msg_total]" fixture_app]
  from th0 [THEN conjunct1] e l
  have v0: "validateCart fixture_runtime initial_cart = Inr [msg_empty, msg_total]"
    by simp
  have i: "js_prop unavailable_cart ''items'' = JArr [unavailable_item]"
    by (simp add: unavailable_cart_def)
  have t: "js_prop unavailable_cart ''total'' = JNum 0"
    by (simp add: unavailable_cart_def)
  have n: "to_string fixture_runtime (item_name unavailable_item) = ''Balm''"
    by (simp add: to_string_def item_name_def unavailable_item_def opt_get_def nullish_def)
  note th = validateCart_composition
    [of unavailable_cart fixture_runtime unavailable_item
        "[msg_unavailable ''Balm'', msg_total]" fixture_app]
  from th [THEN conjunct2, THEN conjunct1] i t unavailable_item_invalid n
  have v: "validateCart fixture_runtime unavailable_cart
             = Inr [msg_unavailable ''Balm'', msg_total]"
    by simp
  from th [THEN conjunct2, THEN conjunct2, THEN conjunct1] v
  have m: "(msg_total \<in> set [msg_unavailable ''Balm'', msg_total])
             = js_less fixture_runtime (js_prop unavailable_cart ''total'') (1 / 100)"
    by simp
  have m1: "msg_total \<in> set [msg_unavailable ''Balm'', msg_total]" by simp
  from m m1 have m2: "js_less fixture_runtime (js_prop unavailable_cart ''total'') (1 / 100)"
    by simp
  from th [THEN conjunct2, THEN conjunct2, THEN conjunct2, THEN conjunct2]
  have b: "checkout_validated (Inr [msg_unavailable ''Balm'', msg_total]) fixture_app
       = (showError (join_strings '' '' [msg_unavailable ''Balm'', msg_total]) None fixture_app,
          Finished)"
    by simp
  from e v0 i t v m1 m2 b unavailable_item_invalid show ?thesis by simp
qed

text \<open>The claim as stated fails twice: the cart of a new session (no lines, total 0) gets
  the total message besides the empty-cart message, and a cart whose total is half a cent,
  which is above 0, gets the total message.\<close>

theorem validateCart_counterexample:
  "validateCart fixture_runtime initial_cart = Inr [msg_empty, msg_total]
   \<and> js_prop half_cent_cart ''total'' = JNum (1 / 200)
   \<and> validateCart fixture_runtime half_cent_cart = Inr [msg_total]"
  by (simp add: validate_initial_cart validate_half_cent_cart)
     (simp add: half_cent_cart_def)

section \<open>Persistence: theorems\<close>

text \<open>\<open>MultiStoreApp.loadCartFromStorage\<close> on a record that does not parse: the cart is
  left alone, nothing is shown, and the record is removed, unless the record is the empty
  string, which \<open>if (saved)\<close> takes for no record and leaves in place.\<close>

lemma loadCartFromStorage_malformed:
  assumes "storage s = Some saved" and "saved \<noteq> []" and "JSON_parse rt saved = None"
  shows "loadCartFromStorage rt s = s\<lparr>storage := None\<rparr>"
  using assms by (simp add: loadCartFromStorage_def)

lemma loadCartFromStorage_empty_text:
  assumes "storage s = Some []"
  shows "loadCartFromStorage rt s = s"
  using assms by (simp add: loadCartFromStorage_def)

text \<open>
  Claim C3. A malformed value stored under \<open>shopify-cart\<close> never makes the restore at
  startup throw. The constructor of \<open>ShopifyIntegration\<close>, which restores its cart from
  the same record, does throw: it calls \<open>JSON.parse\<close> outside any \<open>try\<close>, so the
  \<open>SyntaxError\<close> leaves the constructor.
\<close>

theorem ShopifyIntegration_constructor_throws:
  "JSON_parse rt saved = None \<Longrightarrow>
     ShopifyIntegration_constructor_cart rt (Some saved) = Inl SyntaxError"
  by (simp add: ShopifyIntegration_constructor_cart_def)

theorem ShopifyIntegration_constructor_throws_witness:
  "JSON_parse fixture_runtime ''{bad'' = None
   \<and> ShopifyIntegration_constructor_cart fixture_runtime (Some ''{bad'') = Inl SyntaxError"
proof -
  have h: "JSON_parse fixture_runtime ''{bad'' = None"
    by (simp add: fixture_runtime_def fixture_parse_def)
  from ShopifyIntegration_constructor_throws [OF h] h show ?thesis by simp
qed

text \<open>Without a record the constructor parses the text \<open>null\<close> and takes its default
  cart.\<close>

lemma ShopifyIntegration_constructor_no_record:
  "ShopifyIntegration_constructor_cart fixture_runtime None = Inr ShopifyIntegration_default_cart"
  by (simp add: ShopifyIntegration_constructor_cart_def fixture_runtime_def fixture_parse_def)

text \<open>The fixture's reader gives back what its writer wrote, for every JSON value.\<close>

lemma read_nat_write: "read_nat (write_nat n @ r) = Some (n, r)"
  by (induction n) (simp_all add: write_nat_def)

lemma read_int_write: "read_int (write_int a @ r) = Some (a, r)"
  by (simp add: read_int_def write_int_def read_nat_write)

lemma read_text_write: "read_text (write_text s @ r) = Some (s, r)"
  by (simp add: read_text_def write_text_def read_nat_write)

lemma of_quotient: "of_int (fst (quotient_of q)) / of_nat (nat (snd (quotient_of q))) = q"
proof -
  obtain a b where ab: "quotient_of q = (a, b)" by (cases "quotient_of q")
  then have pos: "0 < b" by (rule quotient_of_denom_pos)
  from ab have "q = of_int a / of_int b" by (rule quotient_of_div)
  then have e: "of_int a / of_int b = q" by (rule sym)
  from pos have "(of_nat (nat b) :: rat) = of_int b" by simp
  with e show ?thesis unfolding ab fst_conv snd_conv by simp
qed

lemma write_json_not_empty: "write_json v \<noteq> []"
  by (cases v) simp_all

lemma read_json_write:
  "is_json v \<Longrightarrow> length (write_json v) \<le> n \<Longrightarrow> read_json n (write_json v @ r) = Some (v, r)"
  "is_json_elems xs \<Longrightarrow> length (write_elems xs) \<le> n \<Longrightarrow>
     read_many (read_json n) (length xs) (write_elems xs @ r) = Some (xs, r)"
  "is_json_props ps \<Longrightarrow> length (write_props ps) \<le> n \<Longrightarrow>
     read_many (read_prop (read_json n)) (length ps) (write_props ps @ r) = Some (ps, r)"
proof (induction v and xs and ps arbitrary: n r and n r and n r
        rule: is_json_is_json_elems_is_json_props.induct)
  case (7 xs)
  then obtain m where m: "n = Suc m" by (cases n) auto
  with 7 show ?case by (simp add: read_nat_write)
next
  case (8 ps)
  then obtain m where m: "n = Suc m" by (cases n) auto
  with 8 show ?case by (simp add: read_nat_write)
next
  case (10 x xs)
  then show ?case by simp
next
  case (12 k v ps)
  then show ?case by (simp add: read_prop_def read_text_write)
next
  case (4 q)
  then obtain m where m: "n = Suc m" by (cases n) auto
  then show ?case by (simp add: read_int_write read_nat_write of_quotient)
next
  case (6 s)
  then obtain m where m: "n = Suc m" by (cases n) auto
  then show ?case by (simp add: read_text_write)
next
  case (3 b)
  then obtain m where m: "n = Suc m" by (cases n; cases b) auto
  then show ?case by simp
next
  case 2
  then obtain m where m: "n = Suc m" by (cases n) auto
  then show ?case by simp
qed simp_all

lemma json_of_is_json:
  "json_of v = Some d \<Longrightarrow> is_json d"
  "is_json_elems (json_elems xs)"
  "is_json_props (json_props ps)"
  by (induction v and xs and ps arbitrary: d rule: json_of_json_elems_json_props.induct)
     (auto split: option.splits)

lemma is_json_fixed:
  "is_json v \<Longrightarrow> json_of v = Some v"
  "is_json_elems xs \<Longrightarrow> json_elems xs = xs"
  "is_json_props ps \<Longrightarrow> json_props ps = ps"
  by (induction v and xs and ps rule: is_json_is_json_elems_is_json_props.induct) auto

lemma json_read_fixed: "is_json v \<or> v = JUndefined \<Longrightarrow> json_read v = v"
  by (auto simp: json_read_def is_json_fixed)

lemma fixture_parse_stringify:
  assumes "json_of v = Some d"
  shows "fixture_stringify v \<noteq> []" and "fixture_parse (fixture_stringify v) = Some d"
proof -
  from assms have j: "is_json d" by (rule json_of_is_json)
  show "fixture_stringify v \<noteq> []"
    by (simp add: fixture_stringify_def assms write_json_not_empty)
  from read_json_write(1) [OF j, of "length (write_json d)" "[]"]
  show "fixture_parse (fixture_stringify v) = Some d"
    by (simp add: fixture_parse_def fixture_stringify_def assms)
qed

lemma fixture_runtime_conformant: "json_conformant fixture_runtime"
  by (simp add: json_conformant_def fixture_runtime_def fixture_parse_stringify)

text \<open>Saving and loading: the cart that comes back is the JSON form of the record that was
  written, whatever \<open>renderCart\<close> then makes of it.\<close>

lemma saveCartToStorage_Inr:
  assumes "saveCartToStorage rt s = Inr s1"
  shows "s1 = s\<lparr>storage := Some (JSON_stringify rt (cart_record (cart s)))\<rparr>"
  using assms by (auto simp: saveCartToStorage_def split: if_splits)

lemma json_of_cart_record:
  "json_of (cart_record c) =
     Some (JObj (json_props [(''id'', js_prop c ''id''), (''items'', js_prop c ''items''),
                             (''total'', js_prop c ''total''),
                             (''checkoutUrl'', js_prop c ''checkoutUrl'')]))"
  by (simp add: cart_record_def)

lemma restore_after_persist:
  assumes "json_conformant rt" and "saveCartToStorage rt s = Inr s1"
  shows "cart (loadCartFromStorage rt s1) = json_read (cart_record (cart s))"
proof -
  let ?d = "JObj (json_props [(''id'', js_prop (cart s) ''id''),
                             (''items'', js_prop (cart s) ''items''),
                             (''total'', js_prop (cart s) ''total''),
                             (''checkoutUrl'', js_prop (cart s) ''checkoutUrl'')])"
  have j: "json_of (cart_record (cart s)) = Some ?d" by (rule json_of_cart_record)
  with assms(1)
  have ne: "JSON_stringify rt (cart_record (cart s)) \<noteq> []"
    and rd: "JSON_parse rt (JSON_stringify rt (cart_record (cart s))) = Some ?d"
    unfolding json_conformant_def by blast+
  have st: "storage s1 = Some (JSON_stringify rt (cart_record (cart s)))"
    using saveCartToStorage_Inr [OF assms(2)] by simp
  have "cart (loadCartFromStorage rt s1) = ?d"
    using ne rd by (simp add: loadCartFromStorage_def st split: sum.splits)
  then show ?thesis by (simp add: json_read_def j)
qed

lemma map_of_json_props:
  "distinct (map fst ps) \<Longrightarrow>
     map_of (json_props ps) k = (case map_of ps k of None \<Rightarrow> None | Some v \<Rightarrow> json_of v)"
proof (induction ps)
  case Nil
  show ?case by simp
next
  case (Cons p ps)
  obtain k' v where p: "p = (k', v)" by (cases p)
  from Cons.prems have n: "map_of ps k' = None"
    by (simp add: p map_of_eq_None_iff)
  from Cons.prems have d: "distinct (map fst ps)" by simp
  show ?case
  proof (cases "k = k'")
    case True
    with n Cons.IH [OF d] show ?thesis by (simp add: p split: option.splits)
  next
    case False
    with Cons.IH [OF d] show ?thesis by (simp add: p split: option.splits)
  qed
qed

lemma js_prop_json_read_object:
  assumes "distinct (map fst ps)"
  shows "js_prop (json_read (JObj ps)) k
           = (case map_of ps k of None \<Rightarrow> JUndefined | Some v \<Rightarrow> json_read v)"
  by (simp add: json_read_def map_of_json_props [OF assms] split: option.splits)

lemma json_read_cart_record:
  "js_prop (json_read (cart_record c)) ''id'' = json_read (js_prop c ''id'')"
  "js_prop (json_read (cart_record c)) ''items'' = json_read (js_prop c ''items'')"
  "js_prop (json_read (cart_record c)) ''total'' = json_read (js_prop c ''total'')"
  "js_prop (json_read (cart_record c)) ''checkoutUrl'' = json_read (js_prop c ''checkoutUrl'')"
  unfolding cart_record_def
  by (subst js_prop_json_read_object; simp)+

lemma restored_field:
  assumes "json_conformant rt" and "saveCartToStorage rt s = Inr s1"
      and "k = ''id'' \<or> k = ''items'' \<or> k = ''total'' \<or> k = ''checkoutUrl''"
  shows "js_prop (cart (loadCartFromStorage rt s1)) k = json_read (js_prop (cart s) k)"
proof -
  note r = restore_after_persist [OF assms(1,2)]
  from assms(3) show ?thesis
  proof (elim disjE)
    assume "k = ''id''"
    then show ?thesis by (simp only: r json_read_cart_record(1))
  next
    assume "k = ''items''"
    then show ?thesis by (simp only: r json_read_cart_record(2))
  next
    assume "k = ''total''"
    then show ?thesis by (simp only: r json_read_cart_record(3))
  next
    assume "k = ''checkoutUrl''"
    then show ?thesis by (simp only: r json_read_cart_record(4))
  qed
qed

text \<open>
  Claim C4, as amended. Under a runtime whose JSON functions do what the language says,
  restoring after persisting gives, for every cart, the JSON form of the record
  \<open>{id, items, total, checkoutUrl}\<close>: each of the four fields comes back as JSON renders
  it. A field that is a JSON value (no \<open>undefined\<close> and no \<open>NaN\<close> at any depth, so also
  \<open>null\<close>) or is \<open>undefined\<close> comes back equal; a \<open>NaN\<close> comes back as \<open>null\<close>, and a
  property whose value is \<open>undefined\<close> is gone from the objects inside \<open>items\<close>.
\<close>

theorem persist_restore_roundtrip:
  assumes "json_conformant rt" and "saveCartToStorage rt s = Inr s1"
  shows "cart (loadCartFromStorage rt s1) = json_read (cart_record (cart s))
       \<and> (\<forall>k. k = ''id'' \<or> k = ''items'' \<or> k = ''total'' \<or> k = ''checkoutUrl'' \<longrightarrow>
             js_prop (cart (loadCartFromStorage rt s1)) k = json_read (js_prop (cart s) k)
             \<and> (is_json (js_prop (cart s) k) \<or> js_prop (cart s) k = JUndefined \<longrightarrow>
                  js_prop (cart (loadCartFromStorage rt s1)) k = js_prop (cart s) k))"
proof (intro conjI allI impI)
  show "cart (loadCartFromStorage rt s1) = json_read (cart_record (cart s))"
    by (rule restore_after_persist [OF assms])
next
  fix k assume "k = ''id'' \<or> k = ''items'' \<or> k = ''total'' \<or> k = ''checkoutUrl''"
  then show "js_prop (cart (loadCartFromStorage rt s1)) k = json_read (js_prop (cart s) k)"
    by (rule restored_field [OF assms])
next
  fix k assume k: "k = ''id'' \<or> k = ''items'' \<or> k = ''total'' \<or> k = ''checkoutUrl''"
    and j: "is_json (js_prop (cart s) k) \<or> js_prop (cart s) k = JUndefined"
  have "js_prop (cart (loadCartFromStorage rt s1)) k = json_read (js_prop (cart s) k)"
    using k by (rule restored_field [OF assms])
  also have "\<dots> = js_prop (cart s) k" using j by (rule json_read_fixed)
  finally show "js_prop (cart (loadCartFromStorage rt s1)) k = js_prop (cart s) k" .
qed

text \<open>The cart the reconciler built comes back with its id and its total; its line comes
  back without the four properties that were \<open>undefined\<close>.\<close>

theorem persist_restore_roundtrip_witness:
  "json_conformant fixture_runtime
   \<and> saveCartToStorage fixture_runtime reconciled_app
       = Inr (reconciled_app
               \<lparr>storage := Some (JSON_stringify fixture_runtime (cart_record reconciled_cart))\<rparr>)
   \<and> js_prop (cart (loadCartFromStorage fixture_runtime (reconciled_app
               \<lparr>storage := Some (JSON_stringify fixture_runtime (cart_record reconciled_cart))\<rparr>)))
        ''total'' = JNum 25
   \<and> js_prop (cart (loadCartFromStorage fixture_runtime (reconciled_app
               \<lparr>storage := Some (JSON_stringify fixture_runtime (cart_record reconciled_cart))\<rparr>)))
        ''id'' = JNull
   \<and> js_prop (cart (loadCartFromStorage fixture_runtime (reconciled_app
               \<lparr>storage := Some (JSON_stringify fixture_runtime (cart_record reconciled_cart))\<rparr>)))
        ''items'' =
       JArr [JObj
         [(''id'', JStr ''line-1''), (''quantity'', JNum 2),
          (''variant'', JObj
             [(''id'', JStr ''variant-1''), (''availableForSale'', JBool True),
              (''priceV2'', JObj [(''amount'', JStr ''10.00''),
                                  (''currencyCode'', JStr ''USD'')]),
              (''product'', JObj [(''title'', JStr ''Balm'')])]),
          (''price'', JNum 10)]]"
proof -
  define s1 where "s1 = reconciled_app
      \<lparr>storage := Some (JSON_stringify fixture_runtime (cart_record reconciled_cart))\<rparr>"
  have c: "cart reconciled_app = reconciled_cart" by (simp add: reconciled_app_def)
  have n: "\<not> nullish reconciled_cart" by (simp add: reconciled_cart_def nullish_def)
  have sv: "saveCartToStorage fixture_runtime reconciled_app = Inr s1"
    unfolding s1_def saveCartToStorage_def c using n by simp
  note th = persist_restore_roundtrip [OF fixture_runtime_conformant sv, THEN conjunct2]
  have rt: "json_read (js_prop reconciled_cart ''total'') = JNum 25"
    by (simp add: reconciled_cart_def json_read_def)
  have ri: "json_read (js_prop reconciled_cart ''id'') = JNull"
    by (simp add: reconciled_cart_def json_read_def)
  have rl: "json_read (js_prop reconciled_cart ''items'') =
       JArr [JObj
         [(''id'', JStr ''line-1''), (''quantity'', JNum 2),
          (''variant'', JObj
             [(''id'', JStr ''variant-1''), (''availableForSale'', JBool True),
              (''priceV2'', JObj [(''amount'', JStr ''10.00''),
                                  (''currencyCode'', JStr ''USD'')]),
              (''product'', JObj [(''title'', JStr ''Balm'')])]),
          (''price'', JNum 10)]]"
    by (simp add: reconciled_cart_def json_read_def)
  have t: "js_prop (cart (loadCartFromStorage fixture_runtime s1)) ''total'' = JNum 25"
    using th [THEN spec, of "''total''"] unfolding c rt by blast
  have i: "js_prop (cart (loadCartFromStorage fixture_runtime s1)) ''id'' = JNull"
    using th [THEN spec, of "''id''"] unfolding c ri by blast
  have l: "js_prop (cart (loadCartFromStorage fixture_runtime s1)) ''items'' =
       JArr [JObj
         [(''id'', JStr ''line-1''), (''quantity'', JNum 2),
          (''variant'', JObj
             [(''id'', JStr ''variant-1''), (''availableForSale'', JBool True),
              (''priceV2'', JObj [(''amount'', JStr ''10.00''),
                                  (''currencyCode'', JStr ''USD'')]),
              (''product'', JObj [(''title'', JStr ''Balm'')])]),
          (''price'', JNum 10)]]"
    using th [THEN spec, of "''items''"] unfolding c rl by blast
  from fixture_runtime_conformant sv t i l show ?thesis
    unfolding s1_def by (intro conjI)
qed

text \<open>The claim as stated fails for a total that is \<open>NaN\<close>: it is stored as \<open>null\<close> and
  comes back as \<open>null\<close>.\<close>

theorem persist_restore_counterexample:
  "js_prop (cart nan_total_app) ''total'' = JNaN
   \<and> saveCartToStorage fixture_runtime nan_total_app
       = Inr (nan_total_app
               \<lparr>storage := Some (JSON_stringify fixture_runtime
                                   (cart_record (cart nan_total_app)))\<rparr>)
   \<and> js_prop (cart (loadCartFromStorage fixture_runtime (nan_total_app
               \<lparr>storage := Some (JSON_stringify fixture_runtime
                                   (cart_record (cart nan_total_app)))\<rparr>)))
        ''total'' = JNull"
proof -
  define s1 where "s1 = nan_total_app
      \<lparr>storage := Some (JSON_stringify fixture_runtime (cart_record (cart nan_total_app)))\<rparr>"
  have t: "js_prop (cart nan_total_app) ''total'' = JNaN" by (simp add: nan_total_app_def)
  have n: "\<not> nullish (cart nan_total_app)" by (simp add: nan_total_app_def nullish_def)
  have sv: "saveCartToStorage fixture_runtime nan_total_app = Inr s1"
    unfolding s1_def saveCartToStorage_def using n by simp
  have "js_prop (cart (loadCartFromStorage fixture_runtime s1)) ''total''
          = json_read (js_prop (cart nan_total_app) ''total'')"
    by (rule restored_field [OF fixture_runtime_conformant sv]) simp
  then have r: "js_prop (cart (loadCartFromStorage fixture_runtime s1)) ''total'' = JNull"
    unfolding t by (simp add: json_read_def)
  from t sv r show ?thesis unfolding s1_def by (intro conjI)
qed

section \<open>The checkout guard: theorems\<close>

lemma refresh_try_failed: "refresh_try rt (Inl e) s = (s, Some e)"
  by (simp add: refresh_try_def)

text \<open>
  Claim C7. When the \<open>getCart\<close> refresh of a checkout attempt fails, the guard does not
  abort: the state is left as it was and the validator runs on the cached cart; if it finds
  nothing, the checkout goes on.
\<close>

theorem refresh_failure_validates_cached:
  "validateCartWithRefresh_resume rt (Inl e) s = (s, validateCart rt (cart s))
   \<and> checkout_refreshed rt (Inl e) s = (s, AwaitValidated (validateCart rt (cart s)))
   \<and> (validateCart rt (cart s) = Inr [] \<longrightarrow>
        checkout_validated (validateCart rt (cart s)) s
          = (s\<lparr>isCheckingOut := True\<rparr>, AwaitDelay))"
  by (simp add: validateCartWithRefresh_resume_def checkout_refreshed_def refresh_try_failed
        checkout_validated_def)

theorem refresh_failure_validates_cached_witness:
  "validateCart fixture_runtime (cart fixture_app) = Inr []
   \<and> checkout_refreshed fixture_runtime (Inl (Error ''HTTP error! status: 503'')) fixture_app
       = (fixture_app, AwaitValidated (Inr []))
   \<and> checkout_validated (Inr []) fixture_app
       = (fixture_app\<lparr>isCheckingOut := True\<rparr>, AwaitDelay)"
proof -
  have v: "validateCart fixture_runtime (cart fixture_app) = Inr []"
    by (simp add: fixture_app_def validate_fixture_cart)
  from refresh_failure_validates_cached
         [of fixture_runtime "Error ''HTTP error! status: 503''" fixture_app] v
  show ?thesis by simp
qed

lemma join_strings_Cons:
  "join_strings sep (m # ms) = m @ (if ms = [] then [] else sep @ join_strings sep ms)"
  by (cases ms) simp_all

lemma validateCart_first_message:
  assumes "validateCart rt c = Inr msgs" and "msgs \<noteq> []"
  shows "\<exists>m ms. msgs = m # ms
           \<and> (m = msg_empty \<or> (\<exists>names. m = msg_unavailable names) \<or> m = msg_total)"
  using assms unfolding validateCart_def and_then_def
  by (auto split: sum.splits if_splits)

text \<open>What \<open>checkout\<close> shows for a validation failure starts with one of the validator's
  three messages, none of which starts like the message for the missing URL.\<close>

lemma validation_text_is_not_url_text:
  assumes "validateCart rt c = Inr msgs" and "msgs \<noteq> []"
  shows "join_strings '' '' msgs \<noteq> msg_no_checkout_url"
proof -
  from validateCart_first_message [OF assms] obtain m ms where
    m: "msgs = m # ms"
    and h: "m = msg_empty \<or> (\<exists>names. m = msg_unavailable names) \<or> m = msg_total"
    by blast
  from h show ?thesis
    unfolding m join_strings_Cons
    by (auto simp: msg_empty_def msg_unavailable_def msg_total_def msg_no_checkout_url_def)
qed

lemma checkout_begin_inflight: "isCheckingOut s \<Longrightarrow> checkout_begin rt s = (s, Finished)"
  by (simp add: checkout_begin_def)

text \<open>The first stretch of \<open>checkout\<close> never touches the flag; it is raised when the
  validator's answer is empty, and lowered again when the last stretch fails.\<close>

lemma checkout_begin_keeps_flag:
  "isCheckingOut (fst (checkout_begin rt s)) = isCheckingOut s"
  by (auto simp: checkout_begin_def Let_def split: sum.splits)

lemma checkout_after_delay_releases_flag:
  assumes "redirect_try rt s = (s1, Some e)"
  shows "\<not> isCheckingOut (fst (checkout_after_delay rt s))"
  using assms by (auto simp: checkout_after_delay_def Let_def split: sum.splits)

text \<open>
  Claim C9, as amended. When \<open>checkout()\<close> is called on a cart whose \<open>checkoutUrl\<close> is
  null or missing, the call ends at once, sends no \<open>getCart\<close> request and leaves the cart
  alone. If no checkout is in flight it shows the message for the missing URL, which
  differs from every text shown for a validation failure; if one is in flight the call is
  a silent no-op, since the in-flight check comes first.
\<close>

theorem checkout_without_url:
  assumes "get (cart s) ''checkoutUrl'' = Inr u" and "\<not> truthy u"
  shows "checkout_begin rt s
           = (if isCheckingOut s then s else showError msg_no_checkout_url None s, Finished)
       \<and> requests (fst (checkout_begin rt s)) = requests s
       \<and> cart (fst (checkout_begin rt s)) = cart s
       \<and> (\<forall>c msgs. validateCart rt c = Inr msgs \<and> msgs \<noteq> []
             \<longrightarrow> join_strings '' '' msgs \<noteq> msg_no_checkout_url)"
  using assms validation_text_is_not_url_text
  by (auto simp: checkout_begin_def showError_def)

theorem checkout_without_url_witness:
  "get (cart (MultiStoreApp_constructor None)) ''checkoutUrl'' = Inr JUndefined
   \<and> checkout_begin fixture_runtime (MultiStoreApp_constructor None)
       = (showError msg_no_checkout_url None (MultiStoreApp_constructor None), Finished)
   \<and> requests (fst (checkout_begin fixture_runtime (MultiStoreApp_constructor None))) = []
   \<and> validateCart fixture_runtime initial_cart = Inr [msg_empty, msg_total]
   \<and> join_strings '' '' [msg_empty, msg_total] \<noteq> msg_no_checkout_url"
proof -
  have g: "get (cart (MultiStoreApp_constructor None)) ''checkoutUrl'' = Inr JUndefined"
    by (simp add: MultiStoreApp_constructor_def initial_cart_def get_def nullish_def)
  have t: "\<not> truthy JUndefined" by simp
  have f: "\<not> isCheckingOut (MultiStoreApp_constructor None)"
    by (simp add: MultiStoreApp_constructor_def)
  note th = checkout_without_url [OF g t, of fixture_runtime]
  from th [THEN conjunct1] f
  have b: "checkout_begin fixture_runtime (MultiStoreApp_constructor None)
       = (showError msg_no_checkout_url None (MultiStoreApp_constructor None), Finished)"
    by simp
  have r: "requests (fst (checkout_begin fixture_runtime (MultiStoreApp_constructor None))) = []"
    using th [THEN conjunct2, THEN conjunct1] by (simp add: MultiStoreApp_constructor_def)
  have v: "validateCart fixture_runtime initial_cart = Inr [msg_empty, msg_total]"
    by (rule validate_initial_cart)
  from th [THEN conjunct2, THEN conjunct2, THEN conjunct2] v
  have d: "join_strings '' '' [msg_empty, msg_total] \<noteq> msg_no_checkout_url"
    by blast
  from g b r v d show ?thesis by simp
qed

text \<open>The claim as stated fails while a checkout is in flight: the cart has no checkout
  URL, and the call shows nothing.\<close>

theorem checkout_without_url_counterexample:
  "js_prop (cart inflight_app) ''checkoutUrl'' = JUndefined
   \<and> notices (fst (checkout_begin fixture_runtime inflight_app)) = []"
  by (simp add: checkout_begin_inflight inflight_app_def initial_cart_def)

text \<open>
  Claim C2. Of two \<open>checkout()\<close> calls, the second made while the first waits for the
  refresh, only one may send a \<open>getCart\<close> request. In the code the flag
  \<open>isCheckingOut\<close> is raised only after the refresh and the validation, so the second call
  passes the check and sends a second request.
\<close>

theorem second_checkout_refreshes_again:
  assumes "\<not> isCheckingOut s"
      and "truthy (js_prop (cart s) ''checkoutUrl'')"
      and "truthy (js_prop (cart s) ''id'')"
  shows "checkout_begin rt s = (issue (Req_getCart (js_prop (cart s) ''id'')) s, AwaitRefresh)
       \<and> checkout_begin rt (fst (checkout_begin rt s))
           = (issue (Req_getCart (js_prop (cart s) ''id''))
                (issue (Req_getCart (js_prop (cart s) ''id'')) s), AwaitRefresh)
       \<and> requests (fst (checkout_begin rt (fst (checkout_begin rt s))))
           = requests s @ [Req_getCart (js_prop (cart s) ''id''),
                           Req_getCart (js_prop (cart s) ''id'')]"
proof -
  have n: "\<not> nullish (cart s)" using assms(2) by (auto simp: nullish_def)
  have b: "\<And>s'. cart s' = cart s \<Longrightarrow> \<not> isCheckingOut s' \<Longrightarrow>
     checkout_begin rt s' = (issue (Req_getCart (js_prop (cart s) ''id'')) s', AwaitRefresh)"
    using assms(2,3) n by (simp add: checkout_begin_def get_def Let_def)
  have 1: "checkout_begin rt s = (issue (Req_getCart (js_prop (cart s) ''id'')) s, AwaitRefresh)"
    using b [of s] assms(1) by simp
  have 2: "checkout_begin rt (issue (Req_getCart (js_prop (cart s) ''id'')) s)
     = (issue (Req_getCart (js_prop (cart s) ''id''))
          (issue (Req_getCart (js_prop (cart s) ''id'')) s), AwaitRefresh)"
    using b [of "issue (Req_getCart (js_prop (cart s) ''id'')) s"] assms(1) by simp
  show ?thesis by (simp add: 1 2) (simp add: issue_def)
qed

theorem second_checkout_refreshes_again_witness:
  "\<not> isCheckingOut fixture_app
   \<and> requests (fst (checkout_begin fixture_runtime
                      (fst (checkout_begin fixture_runtime fixture_app))))
       = [Req_getCart (JStr ''gid://shopify/Cart/1''), Req_getCart (JStr ''gid://shopify/Cart/1'')]"
proof -
  have a: "\<not> isCheckingOut fixture_app" by (simp add: fixture_app_def)
  have u: "truthy (js_prop (cart fixture_app) ''checkoutUrl'')"
    by (simp add: fixture_app_def fixture_cart_def)
  have i: "truthy (js_prop (cart fixture_app) ''id'')"
    by (simp add: fixture_app_def fixture_cart_def)
  have r: "requests fixture_app = []" by (simp add: fixture_app_def)
  have k: "js_prop (cart fixture_app) ''id'' = JStr ''gid://shopify/Cart/1''"
    by (simp add: fixture_app_def fixture_cart_def)
  note t = second_checkout_refreshes_again [OF a u i, of fixture_runtime]
  from t [THEN conjunct2, THEN conjunct2] a r k show ?thesis by simp
qed

end
